theory Spec2Isabelle
  imports Main
begin

section \<open>Python values, exceptions and protocol data\<close>

text \<open>
  A raised Python exception is a value: the qualified name of its class and the text that
  \<open>str(e)\<close> gives. A call that can raise returns \<open>PyException + 'a\<close>, with \<open>Inl\<close> the
  exception.
\<close>

datatype PyException = PyException (qualname: string) (message: string)

text \<open>
  The error kind ClosedCollection of the data collections: the \<open>ValueError\<close> that
  \<open>AsyncPSDataCollection.append\<close> and \<open>insert\<close> raise.
\<close>

definition ClosedCollection :: PyException where
  "ClosedCollection = PyException ''ValueError'' ''Objects cannot be added to a closed buffer''"

text \<open>What indexing a list out of its range raises.\<close>

definition IndexError :: PyException where
  "IndexError = PyException ''IndexError'' ''list index out of range''"

record ErrorRecord =
  Exception :: string
  FullyQualifiedErrorId :: string
  CategoryInfo_Reason :: string

text \<open>
  Values that travel over the protocol. \<open>PSRaw\<close> is a wire object read by attribute
  (\<open>raw.x\<close>, \<open>raw.height\<close>); \<open>PSSecureString\<close> is a value the codec can only serialise
  once a session key is negotiated; \<open>PSErrorRecord\<close> is an error record as an element of
  an untyped stream.
\<close>

datatype PSObject =
    PSNull
  | PSInt int
  | PSStr string
  | PSSecureString string
  | PSRaw "(string \<times> int) list"
  | PSErrorRecord ErrorRecord

datatype PSInvocationState =
  NotStarted | Running | Stopping | Stopped | Completed | Failed | Disconnected

section \<open>The async data collection (\<open>_async.py\<close>, \<open>AsyncPSDataCollection\<close>)\<close>

text \<open>
  Subscribers are application code. A subscriber is modelled by what it does to the
  application's own state \<open>'w\<close> and by whether it raised; \<open>_wrap_invoke\<close> logs an
  exception and swallows it. Of what a subscriber may do to the collection it is
  subscribed to, \<open>_append\<close> below keeps one thing: marking it complete while it is awaited.
\<close>

type_synonym ('t, 'w) callback = "'t \<Rightarrow> 'w \<Rightarrow> PyException option \<times> 'w"

definition wrap_invoke :: "('t, 'w) callback \<Rightarrow> 't \<Rightarrow> 'w \<Rightarrow> 'w" where
  "wrap_invoke callable arg w = snd (callable arg w)"

record ('t, 'w) AsyncEventHandler =
  callbacks :: "('t, 'w) callback list"
  purpose :: string

text \<open>\<open>AsyncEventHandler.__call__\<close>: every callback in subscription order.\<close>

definition AsyncEventHandler_call :: "('t, 'w) AsyncEventHandler \<Rightarrow> 't \<Rightarrow> 'w \<Rightarrow> 'w" where
  "AsyncEventHandler_call h event w = fold (\<lambda>cb. wrap_invoke cb event) (callbacks h) w"

text \<open>
  The collection is a Python list with a completion flag and three events. The field
  \<open>items\<close> is the list the class inherits from.
\<close>

record ('a, 'w) AsyncPSDataCollection =
  items :: "'a list"
  blocking_iterator :: bool
  completed :: bool
  on_completed :: "(bool, 'w) AsyncEventHandler"
  data_added :: "('a, 'w) AsyncEventHandler"
  data_adding :: "('a, 'w) AsyncEventHandler"

text \<open>
  \<open>list.insert\<close>: the index is converted to a C \<open>ssize_t\<close> (of 64 bits), which raises
  \<open>OverflowError\<close> outside its range; a negative index counts from the end, and an index
  out of range of the list is clamped to the nearest end.
\<close>

definition OverflowError :: PyException where
  "OverflowError = PyException ''OverflowError'' ''Python int too large to convert to C ssize_t''"

definition list_insert :: "int \<Rightarrow> 'a \<Rightarrow> 'a list \<Rightarrow> PyException + 'a list" where
  "list_insert index v xs =
     (if index < - (2 ^ 63) \<or> 2 ^ 63 \<le> index then Inl OverflowError
      else
        let n = int (length xs);
            i = (if index < 0 then max 0 (index + n) else min index n)
        in Inr (take (nat i) xs @ [v] @ drop (nat i) xs))"

definition AsyncPSDataCollection_append ::
  "'a \<Rightarrow> ('a, 'w) AsyncPSDataCollection \<Rightarrow> PyException + ('a, 'w) AsyncPSDataCollection" where
  "AsyncPSDataCollection_append v c =
     (if completed c then Inl ClosedCollection
      else Inr (c\<lparr>items := items c @ [v]\<rparr>))"

definition AsyncPSDataCollection_insert ::
  "int \<Rightarrow> 'a \<Rightarrow> ('a, 'w) AsyncPSDataCollection \<Rightarrow> PyException + ('a, 'w) AsyncPSDataCollection" where
  "AsyncPSDataCollection_insert index v c =
     (if completed c then Inl ClosedCollection
      else (case list_insert index v (items c) of
              Inl e \<Rightarrow> Inl e
            | Inr xs \<Rightarrow> Inr (c\<lparr>items := xs\<rparr>)))"

definition AsyncPSDataCollection_complete ::
  "('a, 'w) AsyncPSDataCollection \<Rightarrow> 'w \<Rightarrow> ('a, 'w) AsyncPSDataCollection \<times> 'w" where
  "AsyncPSDataCollection_complete c w =
     (let c' = c\<lparr>completed := True\<rparr>
      in (c', AsyncEventHandler_call (on_completed c') True w))"

text \<open>
  \<open>_append\<close>, the protocol's own append: dropped on a completed collection, else
  \<open>data_adding\<close>, the list append, \<open>data_added\<close>. The subscribers of \<open>data_adding\<close> are
  awaited between the test of \<open>completed\<close> and the call of \<open>append\<close>. \<open>closed_meanwhile\<close>
  says whether the collection was marked complete in that time, by one of them or by
  another task that ran while they were awaited; \<open>append\<close> then raises.
\<close>

definition AsyncPSDataCollection_append' ::
  "bool \<Rightarrow> 'a \<Rightarrow> ('a, 'w) AsyncPSDataCollection \<Rightarrow> 'w
     \<Rightarrow> PyException + (('a, 'w) AsyncPSDataCollection \<times> 'w)" where
  "AsyncPSDataCollection_append' closed_meanwhile v c w =
     (if completed c then Inr (c, w)
      else
        let w1 = AsyncEventHandler_call (data_adding c) v w;
            c1 = (if closed_meanwhile then c\<lparr>completed := True\<rparr> else c)
        in (case AsyncPSDataCollection_append v c1 of
              Inl e \<Rightarrow> Inl e
            | Inr c' \<Rightarrow> Inr (c', AsyncEventHandler_call (data_added c') v w1)))"

section \<open>The sync data stream (\<open>_sync.py\<close>, \<open>PSDataStream\<close>)\<close>

text \<open>
  A list, the queue \<open>_added_idx\<close> of indices added (\<open>None\<close> is the end marker that
  \<open>finalize\<close> puts), and the flag \<open>_complete\<close>.
\<close>

record PSDataStream =
  ds_items :: "PSObject list"
  added_idx :: "nat option list"
  complete :: bool

definition PSDataStream_new :: PSDataStream where
  "PSDataStream_new = \<lparr>ds_items = [], added_idx = [], complete = False\<rparr>"

text \<open>
  \<open>append\<close> is the one method the class has for adding, for the listener and for the
  application alike. It raises nothing, so it always returns \<open>Inr\<close>.
\<close>

definition PSDataStream_append :: "PSObject \<Rightarrow> PSDataStream \<Rightarrow> PyException + PSDataStream" where
  "PSDataStream_append v s =
     (if \<not> complete s
      then Inr (s\<lparr>ds_items := ds_items s @ [v],
                  added_idx := added_idx s @ [Some (length (ds_items s @ [v]) - 1)]\<rparr>)
      else Inr s)"

definition PSDataStream_finalize :: "PSDataStream \<Rightarrow> PSDataStream" where
  "PSDataStream_finalize s =
     (if \<not> complete s then s\<lparr>added_idx := added_idx s @ [None]\<rparr> else s)"

text \<open>
  \<open>insert\<close> is not overridden: it is \<open>list.insert\<close>, which knows neither the flag nor the
  queue.
\<close>

definition PSDataStream_insert :: "int \<Rightarrow> PSObject \<Rightarrow> PSDataStream \<Rightarrow> PyException + PSDataStream" where
  "PSDataStream_insert index v s =
     (case list_insert index v (ds_items s) of
        Inl e \<Rightarrow> Inl e
      | Inr xs \<Rightarrow> Inr (s\<lparr>ds_items := xs\<rparr>))"

text \<open>
  \<open>wait\<close> takes the next index from the queue; it is the only place that sets
  \<open>_complete\<close>, when it takes the end marker. The result is \<open>None\<close> while the queue is
  empty and the caller blocked, else what \<open>wait\<close> returns or raises, and the stream.
\<close>

definition PSDataStream_wait ::
  "PSDataStream \<Rightarrow> ((PyException + PSObject option) \<times> PSDataStream) option" where
  "PSDataStream_wait s =
     (if complete s then Some (Inr None, s)
      else (case added_idx s of
              [] \<Rightarrow> None
            | None # rest \<Rightarrow> Some (Inr None, s\<lparr>added_idx := rest, complete := True\<rparr>)
            | Some idx # rest \<Rightarrow>
                Some (if idx < length (ds_items s) then Inr (Some (ds_items s ! idx))
                      else Inl IndexError,
                      s\<lparr>added_idx := rest\<rparr>)))"


section \<open>Events of the protocol\<close>

datatype RunspacePoolState =
    BeforeOpen | Opening | NegotiationSent | NegotiationSucceeded | Opened
  | Disconnecting | PoolDisconnected | Closing | Closed | Broken

datatype HostMethodIdentifier =
    GetName | GetVersion | GetInstanceId | GetCurrentCulture | GetCurrentUICulture
  | SetShouldExit | EnterNestedPrompt | ExitNestedPrompt | NotifyBeginApplication
  | NotifyEndApplication | PushRunspace | PopRunspace | GetIsRunspacePushed | GetRunspace
  | ReadLine | ReadLineAsSecureString | Write1 | Write2 | WriteLine1 | WriteLine2
  | WriteLine3 | WriteErrorLine | WriteDebugLine | WriteProgress | WriteVerboseLine
  | WriteWarningLine | Prompt | PromptForCredential1 | PromptForCredential2
  | PromptForChoice | PromptForChoiceMultipleSelection
  | GetForegroundColor | SetForegroundColor | GetBackgroundColor | SetBackgroundColor
  | GetCursorPosition | SetCursorPosition | GetWindowPosition | SetWindowPosition
  | GetCursorSize | SetCursorSize | GetBufferSize | SetBufferSize
  | GetWindowSize | SetWindowSize | GetWindowTitle | SetWindowTitle
  | GetMaxWindowSize | GetMaxPhysicalWindowSize | GetKeyAvailable | ReadKey
  | FlushInputBuffer | SetBufferContents1 | SetBufferContents2 | GetBufferContents
  | ScrollBufferContents

text \<open>
  An event is its payload and the pipeline it is addressed to (\<open>None\<close> for the pool).
  Records of the debug, information, progress, verbose and warning streams are plain
  values. A host call carries its call identifier, the method and the parameters; an
  availability answer carries the call identifier it answers. The reason of a pipeline
  state is the text that \<open>str(reason)\<close> gives, \<open>None\<close> when the peer sent none.
\<close>

datatype Payload =
    ApplicationPrivateDataEvent
  | DebugRecordEvent PSObject
  | EncryptedSessionKeyEvent
  | ErrorRecordEvent ErrorRecord
  | GetRunspaceAvailabilityEvent int int
  | InformationRecordEvent PSObject
  | PipelineHostCallEvent int HostMethodIdentifier "PSObject list"
  | PipelineOutputEvent PSObject
  | PipelineStateEvent PSInvocationState "string option"
  | ProgressRecordEvent PSObject
  | RunspacePoolHostCallEvent int HostMethodIdentifier "PSObject list"
  | RunspacePoolInitDataEvent
  | RunspacePoolStateEvent RunspacePoolState
  | SessionCapabilityEvent
  | SetRunspaceAvailabilityEvent int bool
  | UserEventEvent PSObject
  | VerboseRecordEvent PSObject
  | WarningRecordEvent PSObject

datatype PSRPEvent = PSRPEvent (pipeline_id: "nat option") (payload: Payload)

text \<open>
  The event classes, as \<open>isinstance\<close> tests them: a class is named by \<open>EventType\<close> and
  \<open>isinstance_event\<close> says whether an event is of it.
\<close>

datatype EventType =
    TApplicationPrivateData | TDebugRecord | TEncryptedSessionKey | TErrorRecord
  | TGetRunspaceAvailability | TInformationRecord | TPipelineHostCall | TPipelineOutput
  | TPipelineState | TProgressRecord | TRunspacePoolHostCall | TRunspacePoolInitData
  | TRunspacePoolState | TSessionCapability | TSetRunspaceAvailability | TUserEvent
  | TVerboseRecord | TWarningRecord

fun type_of_payload :: "Payload \<Rightarrow> EventType" where
  "type_of_payload ApplicationPrivateDataEvent = TApplicationPrivateData"
| "type_of_payload (DebugRecordEvent _) = TDebugRecord"
| "type_of_payload EncryptedSessionKeyEvent = TEncryptedSessionKey"
| "type_of_payload (ErrorRecordEvent _) = TErrorRecord"
| "type_of_payload (GetRunspaceAvailabilityEvent _ _) = TGetRunspaceAvailability"
| "type_of_payload (InformationRecordEvent _) = TInformationRecord"
| "type_of_payload (PipelineHostCallEvent _ _ _) = TPipelineHostCall"
| "type_of_payload (PipelineOutputEvent _) = TPipelineOutput"
| "type_of_payload (PipelineStateEvent _ _) = TPipelineState"
| "type_of_payload (ProgressRecordEvent _) = TProgressRecord"
| "type_of_payload (RunspacePoolHostCallEvent _ _ _) = TRunspacePoolHostCall"
| "type_of_payload RunspacePoolInitDataEvent = TRunspacePoolInitData"
| "type_of_payload (RunspacePoolStateEvent _) = TRunspacePoolState"
| "type_of_payload SessionCapabilityEvent = TSessionCapability"
| "type_of_payload (SetRunspaceAvailabilityEvent _ _) = TSetRunspaceAvailability"
| "type_of_payload (UserEventEvent _) = TUserEvent"
| "type_of_payload (VerboseRecordEvent _) = TVerboseRecord"
| "type_of_payload (WarningRecordEvent _) = TWarningRecord"

definition isinstance_event :: "PSRPEvent \<Rightarrow> EventType \<Rightarrow> bool" where
  "isinstance_event value t = (type_of_payload (payload value) = t)"

section \<open>The result waiter (\<open>_async.py\<close>, \<open>MessageResult\<close>)\<close>

text \<open>
  \<open>mr_event\<close> is the flag of the \<open>asyncio.Event\<close>; \<open>mr_result\<close> is \<open>_result\<close>.
\<close>

record MessageResult =
  mr_condition :: "(PSRPEvent \<Rightarrow> bool) option"
  mr_event_type :: EventType
  mr_event :: bool
  mr_result :: "PSRPEvent option"

definition MessageResult_new :: "EventType \<Rightarrow> (PSRPEvent \<Rightarrow> bool) option \<Rightarrow> MessageResult" where
  "MessageResult_new event_type condition =
     \<lparr>mr_condition = condition, mr_event_type = event_type, mr_event = False,
      mr_result = None\<rparr>"

text \<open>\<open>set\<close> returns its boolean and the waiter as it leaves it.\<close>

definition MessageResult_set :: "PSRPEvent \<Rightarrow> MessageResult \<Rightarrow> bool \<times> MessageResult" where
  "MessageResult_set value m =
     (if isinstance_event value (mr_event_type m)
         \<and> (case mr_condition m of None \<Rightarrow> True | Some cond \<Rightarrow> cond value)
      then (True, m\<lparr>mr_result := Some value, mr_event := True\<rparr>)
      else (False, m))"

text \<open>
  \<open>wait\<close> returns \<open>_result\<close> once the flag is set; \<open>None\<close> here says the caller is
  still suspended.
\<close>

definition MessageResult_wait :: "MessageResult \<Rightarrow> PSRPEvent option option" where
  "MessageResult_wait m = (if mr_event m then Some (mr_result m) else None)"

text \<open>
  Waiters are objects: the list \<open>_result_handler\<close> and the suspended caller hold the
  same one. \<open>waiters\<close> is the memory of these objects by address, and a list of waiters
  is a list of addresses, so \<open>list.remove\<close> is \<open>remove1\<close> on addresses.

  The loop at the end of both \<open>_event_received\<close>: it runs over a copy of the list,
  calls \<open>set\<close> on each waiter and removes from the list the ones that accept. The third
  component records, for the properties below, each call of \<open>set\<close> and what it
  returned; nothing reads it.
\<close>

type_synonym waiters = "nat \<Rightarrow> MessageResult"

fun offer_handlers ::
  "PSRPEvent \<Rightarrow> nat list \<Rightarrow> waiters \<times> nat list \<times> (nat \<times> bool) list
     \<Rightarrow> waiters \<times> nat list \<times> (nat \<times> bool) list" where
  "offer_handlers event [] st = st"
| "offer_handlers event (handler # rest) (mem, result_handler, calls) =
     (let (accepted, m) = MessageResult_set event (mem handler)
      in offer_handlers event rest
           (mem(handler := m),
            if accepted then remove1 handler result_handler else result_handler,
            calls @ [(handler, accepted)]))"

section \<open>The host and its methods (\<open>_host.py\<close>)\<close>

text \<open>
  A host method is application code: it is modelled by the outcome of calling it with
  given parameters, a returned value or an exception (a subclass of \<open>Exception\<close>).
  A host object is the dictionary of its callable attributes by name, and its subtree.
\<close>

datatype 'a outcome = Returns 'a | Raises PyException

type_synonym host_method = "PSObject list \<Rightarrow> PSObject outcome"

record PSHostRawUI =
  raw_ui_attrs :: "string \<rightharpoonup> host_method"

record PSHostUI =
  ui_attrs :: "string \<rightharpoonup> host_method"
  raw_ui :: "PSHostRawUI option"

record PSHost =
  host_attrs :: "string \<rightharpoonup> host_method"
  ui :: "PSHostUI option"

record MethodMetadata =
  is_void :: bool
  invoke :: "PSObject outcome option"

text \<open>
  What \<open>psrpcore\<close> declares and the repository only imports is a parameter of the
  model: the constructors of the public host types, each of which may raise, and the
  text of a method identifier as \<open>str\<close> and as \<open>format\<close> give it.
\<close>

record psrpcore =
  ConsoleColor :: "PSObject \<Rightarrow> PyException + PSObject"
  Coordinates :: "int \<Rightarrow> int \<Rightarrow> PyException + PSObject"
  Size :: "int \<Rightarrow> int \<Rightarrow> PyException + PSObject"
  str_mi :: "HostMethodIdentifier \<Rightarrow> string"
  format_mi :: "HostMethodIdentifier \<Rightarrow> string"

text \<open>The table of \<open>get_host_method\<close>: name, \<open>is_void\<close>, \<open>host_type\<close>.\<close>

primrec host_method_table :: "HostMethodIdentifier \<Rightarrow> string \<times> bool \<times> string" where
  "host_method_table GetName = (''get_name'', False, ''host'')"
| "host_method_table GetVersion = (''get_version'', False, ''host'')"
| "host_method_table GetInstanceId = (''get_instance_id'', False, ''host'')"
| "host_method_table GetCurrentCulture = (''get_current_culture'', False, ''host'')"
| "host_method_table GetCurrentUICulture = (''get_current_ui_culture'', False, ''host'')"
| "host_method_table SetShouldExit = (''set_should_exit'', True, ''host'')"
| "host_method_table EnterNestedPrompt = (''enter_nested_prompt'', True, ''host'')"
| "host_method_table ExitNestedPrompt = (''exit_nested_prompt'', True, ''host'')"
| "host_method_table NotifyBeginApplication = (''notify_begin_application'', True, ''host'')"
| "host_method_table NotifyEndApplication = (''notify_end_application'', True, ''host'')"
| "host_method_table PushRunspace = (''push_runspace'', True, ''host'')"
| "host_method_table PopRunspace = (''pop_runspace'', True, ''host'')"
| "host_method_table GetIsRunspacePushed = (''get_is_runspace_pushed'', False, ''host'')"
| "host_method_table GetRunspace = (''get_runspace'', False, ''host'')"
| "host_method_table ReadLine = (''read_line'', False, ''ui'')"
| "host_method_table ReadLineAsSecureString = (''read_line_as_secure_string'', False, ''ui'')"
| "host_method_table Write1 = (''write1'', True, ''ui'')"
| "host_method_table Write2 = (''write2'', True, ''ui'')"
| "host_method_table WriteLine1 = (''write_line1'', True, ''ui'')"
| "host_method_table WriteLine2 = (''write_line2'', True, ''ui'')"
| "host_method_table WriteLine3 = (''write_line3'', True, ''ui'')"
| "host_method_table WriteErrorLine = (''write_error_line'', True, ''ui'')"
| "host_method_table WriteDebugLine = (''write_debug_line'', True, ''ui'')"
| "host_method_table WriteProgress = (''write_progress'', True, ''ui'')"
| "host_method_table WriteVerboseLine = (''write_verbose_line'', True, ''ui'')"
| "host_method_table WriteWarningLine = (''write_warning_line'', True, ''ui'')"
| "host_method_table Prompt = (''prompt'', False, ''ui'')"
| "host_method_table PromptForCredential1 = (''prompt_for_credential1'', False, ''ui'')"
| "host_method_table PromptForCredential2 = (''prompt_for_credential2'', False, ''ui'')"
| "host_method_table PromptForChoice = (''prompt_for_choice'', False, ''ui'')"
| "host_method_table PromptForChoiceMultipleSelection =
     (''prompt_for_choice_multiple_selection'', False, ''ui'')"
| "host_method_table GetForegroundColor = (''get_foreground_color'', False, ''raw_ui'')"
| "host_method_table SetForegroundColor = (''set_foreground_color'', True, ''raw_ui'')"
| "host_method_table GetBackgroundColor = (''get_background_color'', False, ''raw_ui'')"
| "host_method_table SetBackgroundColor = (''set_background_color'', True, ''raw_ui'')"
| "host_method_table GetCursorPosition = (''get_cursor_position'', False, ''raw_ui'')"
| "host_method_table SetCursorPosition = (''set_cursor_position'', True, ''raw_ui'')"
| "host_method_table GetWindowPosition = (''get_window_position'', False, ''raw_ui'')"
| "host_method_table SetWindowPosition = (''set_window_position'', True, ''raw_ui'')"
| "host_method_table GetCursorSize = (''get_cursor_size'', False, ''raw_ui'')"
| "host_method_table SetCursorSize = (''set_cursor_size'', True, ''raw_ui'')"
| "host_method_table GetBufferSize = (''get_buffer_size'', False, ''raw_ui'')"
| "host_method_table SetBufferSize = (''set_buffer_size'', True, ''raw_ui'')"
| "host_method_table GetWindowSize = (''get_window_size'', False, ''raw_ui'')"
| "host_method_table SetWindowSize = (''set_window_size'', True, ''raw_ui'')"
| "host_method_table GetWindowTitle = (''get_window_title'', False, ''raw_ui'')"
| "host_method_table SetWindowTitle = (''set_window_title'', True, ''raw_ui'')"
| "host_method_table GetMaxWindowSize = (''get_max_window_size'', False, ''raw_ui'')"
| "host_method_table GetMaxPhysicalWindowSize =
     (''get_max_physical_window_size'', False, ''raw_ui'')"
| "host_method_table GetKeyAvailable = (''get_key_available'', False, ''raw_ui'')"
| "host_method_table ReadKey = (''read_key'', False, ''raw_ui'')"
| "host_method_table FlushInputBuffer = (''flush_input_buffer'', True, ''raw_ui'')"
| "host_method_table SetBufferContents1 = (''set_buffer_contents1'', True, ''raw_ui'')"
| "host_method_table SetBufferContents2 = (''set_buffer_contents2'', True, ''raw_ui'')"
| "host_method_table GetBufferContents = (''get_buffer_contents'', False, ''raw_ui'')"
| "host_method_table ScrollBufferContents = (''scroll_buffer_contents'', True, ''raw_ui'')"

text \<open>
  The walk from the host into \<open>ui\<close> and \<open>raw_ui\<close>: the attribute dictionary of the
  object the method is looked up on, \<open>None\<close> where a needed subtree is absent. The host
  itself is \<open>None\<close> where the sync pipeline has none; \<open>getattr\<close> finds nothing on it.
\<close>

definition walk_host :: "PSHost option \<Rightarrow> string \<Rightarrow> (string \<rightharpoonup> host_method) option" where
  "walk_host host host_type =
     (if host_type \<in> set [''ui'', ''raw_ui''] then
        (case Option.bind host ui of
           None \<Rightarrow> None
         | Some u \<Rightarrow>
             (if host_type \<in> set [''raw_ui''] then
                (case raw_ui u of None \<Rightarrow> None | Some r \<Rightarrow> Some (raw_ui_attrs r))
              else Some (ui_attrs u)))
      else map_option host_attrs host)"

definition AttributeError :: "string \<Rightarrow> PyException" where
  "AttributeError name = PyException ''AttributeError'' name"

text \<open>\<open>obj.name\<close> on a wire object.\<close>

definition getattr_raw :: "PSObject \<Rightarrow> string \<Rightarrow> PyException + int" where
  "getattr_raw obj name =
     (case obj of
        PSRaw attrs \<Rightarrow>
          (case map_of attrs name of None \<Rightarrow> Inl (AttributeError name) | Some v \<Rightarrow> Inr v)
      | _ \<Rightarrow> Inl (AttributeError name))"

text \<open>The conversion of the wire parameters of the six special methods.\<close>

definition adapt_parameters ::
  "psrpcore \<Rightarrow> HostMethodIdentifier \<Rightarrow> PSObject list \<Rightarrow> PyException + PSObject list" where
  "adapt_parameters P method_identifier method_parameters =
     (if method_identifier \<in> set [SetForegroundColor, SetBackgroundColor] then
        (case method_parameters of
           [] \<Rightarrow> Inl IndexError
         | p0 # _ \<Rightarrow> map_sum id (\<lambda>c. [c]) (ConsoleColor P p0))
      else if method_identifier \<in> set [SetCursorPosition, SetWindowPosition] then
        (case method_parameters of
           [] \<Rightarrow> Inl IndexError
         | raw_coordinate # _ \<Rightarrow>
             (case getattr_raw raw_coordinate ''x'' of
                Inl e \<Rightarrow> Inl e
              | Inr x \<Rightarrow>
                  (case getattr_raw raw_coordinate ''y'' of
                     Inl e \<Rightarrow> Inl e
                   | Inr y \<Rightarrow> map_sum id (\<lambda>c. [c]) (Coordinates P x y))))
      else if method_identifier \<in> set [SetBufferSize, SetWindowSize] then
        (case method_parameters of
           [] \<Rightarrow> Inl IndexError
         | raw_size # _ \<Rightarrow>
             (case getattr_raw raw_size ''height'' of
                Inl e \<Rightarrow> Inl e
              | Inr h \<Rightarrow>
                  (case getattr_raw raw_size ''width'' of
                     Inl e \<Rightarrow> Inl e
                   | Inr wd \<Rightarrow> map_sum id (\<lambda>c. [c]) (Size P h wd))))
      else Inr method_parameters)"

definition get_host_method ::
  "psrpcore \<Rightarrow> PSHost option \<Rightarrow> HostMethodIdentifier \<Rightarrow> PSObject list
     \<Rightarrow> PyException + MethodMetadata" where
  "get_host_method P host method_identifier method_parameters =
     (case host_method_table method_identifier of
        (name, void, host_type) \<Rightarrow>
          (case walk_host host host_type of
             None \<Rightarrow> Inr \<lparr>is_void = void, invoke = None\<rparr>
           | Some attrs \<Rightarrow>
               (case attrs name of
                  None \<Rightarrow> Inr \<lparr>is_void = void, invoke = None\<rparr>
                | Some raw_func \<Rightarrow>
                    (case adapt_parameters P method_identifier method_parameters of
                       Inl e \<Rightarrow> Inl e
                     | Inr ps \<Rightarrow> Inr \<lparr>is_void = void, invoke = Some (raw_func ps)\<rparr>))))"

text \<open>
  The error record both facades build from a failed host call: the text of the
  exception, or the name of its class and the method where the text is empty.
\<close>

definition host_call_error_record ::
  "(HostMethodIdentifier \<Rightarrow> string) \<Rightarrow> HostMethodIdentifier \<Rightarrow> PyException \<Rightarrow> ErrorRecord" where
  "host_call_error_record render mi e =
     (let e_msg = (if message e = [] then qualname e @ '' when running '' @ render mi
                   else message e)
      in \<lparr>Exception = e_msg,
          FullyQualifiedErrorId = ''RemoteHostExecutionException'',
          CategoryInfo_Reason = ''Exception''\<rparr>)"

section \<open>The codec and the connection, as the core uses them\<close>

text \<open>
  Modelled from the spec: the codec's \<open>ClientRunspacePool\<close> and \<open>ClientPowerShell\<close>
  (package \<open>psrpcore\<close>, which the repository imports and does not contain). The spec
  gives the codec at its interface only: it exposes state and min/max, queues a host
  response (\<open>host_response(ci, return_value, error_record)\<close>), starts a pipeline and
  takes its input, and raises \<open>MissingCipher\<close> when a secure string is encountered
  without a negotiated key; after a key exchange the key is negotiated. \<open>crp_calls\<close>
  records the calls the core makes, in order.
\<close>

datatype codec_call =
    CallStart nat | CallSend nat PSObject | CallSendEof nat | CallExchangeKey

record ClientRunspacePool =
  runspace_pool_id :: nat
  crp_state :: RunspacePoolState
  crp_min_runspaces :: int
  crp_max_runspaces :: int
  crp_host_responses :: "(int \<times> PSObject \<times> ErrorRecord option) list"
  crp_cipher :: bool
  crp_calls :: "codec_call list"

record ClientPowerShell =
  cps_pipeline_id :: nat
  cps_state :: PSInvocationState
  cps_values :: "PSObject list"
  cps_no_input :: bool

definition MissingCipherError :: PyException where
  "MissingCipherError = PyException ''MissingCipherError'' ''Cannot (de)serialize a secure string without exchanging the session key''"

definition ClientRunspacePool_new :: "int \<Rightarrow> int \<Rightarrow> nat \<Rightarrow> ClientRunspacePool" where
  "ClientRunspacePool_new min_rs max_rs rpid =
     \<lparr>runspace_pool_id = rpid, crp_state = BeforeOpen, crp_min_runspaces = min_rs,
      crp_max_runspaces = max_rs, crp_host_responses = [], crp_cipher = False,
      crp_calls = []\<rparr>"

definition host_response ::
  "int \<Rightarrow> PSObject \<Rightarrow> ErrorRecord option \<Rightarrow> ClientRunspacePool \<Rightarrow> ClientRunspacePool" where
  "host_response ci return_value error_record pool =
     pool\<lparr>crp_host_responses := crp_host_responses pool @ [(ci, return_value, error_record)]\<rparr>"

fun is_secure :: "PSObject \<Rightarrow> bool" where
  "is_secure (PSSecureString _) = True"
| "is_secure _ = False"

text \<open>\<open>start\<close> (\<open>invoke\<close> in the sync facade) serialises the values of the command list.\<close>

definition ClientPowerShell_start ::
  "ClientPowerShell \<Rightarrow> ClientRunspacePool
     \<Rightarrow> (PyException + ClientPowerShell) \<times> ClientRunspacePool" where
  "ClientPowerShell_start cp pool =
     (let pool' = pool\<lparr>crp_calls := crp_calls pool @ [CallStart (cps_pipeline_id cp)]\<rparr>
      in if list_ex is_secure (cps_values cp) \<and> \<not> crp_cipher pool
         then (Inl MissingCipherError, pool')
         else (Inr (cp\<lparr>cps_state := Running\<rparr>), pool'))"

definition ClientPowerShell_send ::
  "PSObject \<Rightarrow> ClientPowerShell \<Rightarrow> ClientRunspacePool
     \<Rightarrow> (PyException + unit) \<times> ClientRunspacePool" where
  "ClientPowerShell_send data cp pool =
     (let pool' = pool\<lparr>crp_calls := crp_calls pool @ [CallSend (cps_pipeline_id cp) data]\<rparr>
      in if is_secure data \<and> \<not> crp_cipher pool
         then (Inl MissingCipherError, pool')
         else (Inr (), pool'))"

definition ClientPowerShell_send_eof ::
  "ClientPowerShell \<Rightarrow> ClientRunspacePool \<Rightarrow> ClientRunspacePool" where
  "ClientPowerShell_send_eof cp pool =
     pool\<lparr>crp_calls := crp_calls pool @ [CallSendEof (cps_pipeline_id cp)]\<rparr>"

text \<open>
  The connection is the transport of the pool. The model keeps the operations the core
  asks of it, in order; each returns (what the transport does with them is its own).
\<close>

datatype conn_op =
    ConnCreate | ConnClose "nat option" | ConnCommand nat | ConnSendAll
  | ConnSendBuffer | ConnSignal nat | ConnConnect "nat option"

section \<open>The async pool and pipeline (\<open>_async.py\<close>)\<close>

record 'w AsyncPipeline =
  pl_state_changed :: "(PSRPEvent, 'w) AsyncEventHandler"
  pl_stream_debug :: "(PSObject, 'w) AsyncPSDataCollection"
  pl_stream_error :: "(ErrorRecord, 'w) AsyncPSDataCollection"
  pl_stream_information :: "(PSObject, 'w) AsyncPSDataCollection"
  pl_stream_progress :: "(PSObject, 'w) AsyncPSDataCollection"
  pl_stream_verbose :: "(PSObject, 'w) AsyncPSDataCollection"
  pl_stream_warning :: "(PSObject, 'w) AsyncPSDataCollection"
  pl_stream_output :: "(PSObject, 'w) AsyncPSDataCollection"
  pl_explicit_output :: bool
  pl_pipeline :: ClientPowerShell
  pl_result_handler :: "nat list"
  pl_host :: "PSHost option"

text \<open>
  The pool. Pipelines are objects too: \<open>rp_pipeline_table\<close> maps a pipeline id to the
  address of the pipeline object.
\<close>

record 'w AsyncRunspacePool =
  rp_connection :: "conn_op list"
  rp_host :: "PSHost option"
  rp_pipeline_table :: "nat \<rightharpoonup> nat"
  rp_state_changed :: "(PSRPEvent, 'w) AsyncEventHandler"
  rp_user_event :: "(PSRPEvent, 'w) AsyncEventHandler"
  rp_stream_debug :: "(PSObject, 'w) AsyncPSDataCollection"
  rp_stream_error :: "(ErrorRecord, 'w) AsyncPSDataCollection"
  rp_stream_information :: "(PSObject, 'w) AsyncPSDataCollection"
  rp_stream_progress :: "(PSObject, 'w) AsyncPSDataCollection"
  rp_stream_verbose :: "(PSObject, 'w) AsyncPSDataCollection"
  rp_stream_warning :: "(PSObject, 'w) AsyncPSDataCollection"
  rp_new_client :: bool
  rp_pool :: ClientRunspacePool
  rp_result_handler :: "nat list"

definition new_handler :: "string \<Rightarrow> ('t, 'w) AsyncEventHandler" where
  "new_handler p = \<lparr>callbacks = [], purpose = p\<rparr>"

definition AsyncPSDataCollection_new :: "('a, 'w) AsyncPSDataCollection" where
  "AsyncPSDataCollection_new =
     \<lparr>items = [], blocking_iterator = False, completed = False,
      on_completed = new_handler ''PSDataCollection on_completed'',
      data_added = new_handler ''PSDataCollection data_added'',
      data_adding = new_handler ''PSDataCollection data_adding''\<rparr>"

text \<open>The error kind ConfigInvalid: the \<open>ValueError\<close> of the async constructor.\<close>

definition ConfigInvalid :: PyException where
  "ConfigInvalid = PyException ''ValueError''
     ''min_runspaces must be greater than 0 and max_runspaces must be greater than min_runspaces.''"

definition AsyncRunspacePool_init ::
  "int \<Rightarrow> int \<Rightarrow> PSHost option \<Rightarrow> nat \<Rightarrow> PyException + 'w AsyncRunspacePool" where
  "AsyncRunspacePool_init min_rs max_rs host rpid =
     (if min_rs < 1 \<or> max_rs < min_rs then Inl ConfigInvalid
      else Inr
        \<lparr>rp_connection = [], rp_host = host, rp_pipeline_table = Map.empty,
         rp_state_changed = new_handler ''RunspacePool state_changed'',
         rp_user_event = new_handler ''RunspacePool user_event'',
         rp_stream_debug = AsyncPSDataCollection_new,
         rp_stream_error = AsyncPSDataCollection_new,
         rp_stream_information = AsyncPSDataCollection_new,
         rp_stream_progress = AsyncPSDataCollection_new,
         rp_stream_verbose = AsyncPSDataCollection_new,
         rp_stream_warning = AsyncPSDataCollection_new,
         rp_new_client = False,
         rp_pool = ClientRunspacePool_new min_rs max_rs rpid,
         rp_result_handler = []\<rparr>)"

definition AsyncRunspacePool_min_runspaces :: "'w AsyncRunspacePool \<Rightarrow> int" where
  "AsyncRunspacePool_min_runspaces rp = crp_min_runspaces (rp_pool rp)"

definition AsyncRunspacePool_max_runspaces :: "'w AsyncRunspacePool \<Rightarrow> int" where
  "AsyncRunspacePool_max_runspaces rp = crp_max_runspaces (rp_pool rp)"








definition KeyError :: "string \<Rightarrow> PyException" where
  "KeyError key = PyException ''KeyError'' key"


text \<open>
  A run of one waiter list: callers arm waiters (\<open>_result_handler.append\<close> of a new
  object, at its address) and the dispatcher delivers events to the list.
\<close>

datatype action = Arm nat MessageResult | Deliver PSRPEvent

fun armed :: "action list \<Rightarrow> nat list" where
  "armed [] = []"
| "armed (Arm a _ # acts) = a # armed acts"
| "armed (Deliver _ # acts) = armed acts"

fun dispatcher_run ::
  "action list \<Rightarrow> waiters \<times> nat list \<times> (nat \<times> bool) list
     \<Rightarrow> waiters \<times> nat list \<times> (nat \<times> bool) list" where
  "dispatcher_run [] st = st"
| "dispatcher_run (Arm a m # acts) (mem, result_handler, calls) =
     dispatcher_run acts (mem(a := m), result_handler @ [a], calls)"
| "dispatcher_run (Deliver event # acts) (mem, result_handler, calls) =
     dispatcher_run acts (offer_handlers event result_handler (mem, result_handler, calls))"

text \<open>How many of the recorded calls of \<open>set\<close> on the waiter at \<open>a\<close> returned true.\<close>

definition accepted_calls :: "nat \<Rightarrow> (nat \<times> bool) list \<Rightarrow> nat" where
  "accepted_calls a calls = length (filter (\<lambda>c. c = (a, True)) calls)"

text \<open>
  The invariant of a run: \<open>todo\<close> are the waiters the current pass has still to offer
  the event to, \<open>hs\<close> is the pending list.
\<close>

definition inv_calls :: "nat list \<Rightarrow> nat list \<Rightarrow> (nat \<times> bool) list \<Rightarrow> bool" where
  "inv_calls todo hs calls =
     (distinct todo \<and> distinct hs
      \<and> (\<forall>a. (a, True) \<in> set calls \<longrightarrow> a \<notin> set todo \<and> a \<notin> set hs)
      \<and> (\<forall>a. accepted_calls a calls \<le> 1))"

text \<open>\<open>AsyncPipeline.had_errors\<close>.\<close>

definition AsyncPipeline_had_errors :: "'w AsyncPipeline \<Rightarrow> bool" where
  "AsyncPipeline_had_errors p = (length (items (pl_stream_error p)) > 0)"

section \<open>The sync pool and pipeline (\<open>_sync.py\<close>)\<close>

text \<open>
  \<open>threading.Event\<close> objects and the output streams are shared between a pipeline and
  the tasks it hands out, so they live in a memory by address: \<open>event_flags\<close> is the
  flag of each event, \<open>stream_objs\<close> the stream at each address, \<open>next_addr\<close> the
  next address free. The six named streams belong to the pipeline alone and are kept
  in the dictionary \<open>streams\<close> by name.
\<close>

record Memory =
  event_flags :: "nat \<Rightarrow> bool"
  stream_objs :: "nat \<Rightarrow> PSDataStream"
  next_addr :: nat

record Pipeline =
  sy_pipeline :: ClientPowerShell
  sy_streams :: "string \<Rightarrow> PSDataStream"
  sy_output_stream :: "nat option"
  sy_completed :: "nat option"
  sy_completed_stop :: "nat option"
  sy_host :: "PSHost option"

record RunspacePool =
  sy_pool :: ClientRunspacePool
  sy_connection :: "conn_op list"
  sy_pool_host :: "PSHost option"
  sy_pipeline_table :: "nat \<rightharpoonup> nat"
  sy_new_client :: bool
  sy_ci_table :: "int \<rightharpoonup> PSRPEvent"

record PipelineTask =
  task_completed :: nat
  task_output_stream :: "nat option"

text \<open>\<open>RunspacePool.__init__\<close>: no statement of it raises.\<close>

definition RunspacePool_init ::
  "int \<Rightarrow> int \<Rightarrow> PSHost option \<Rightarrow> nat \<Rightarrow> PyException + RunspacePool" where
  "RunspacePool_init min_rs max_rs host rpid =
     Inr \<lparr>sy_pool = ClientRunspacePool_new min_rs max_rs rpid,
          sy_connection = [], sy_pool_host = host, sy_pipeline_table = Map.empty,
          sy_new_client = False, sy_ci_table = Map.empty\<rparr>"

definition RunspacePool_min_runspaces :: "RunspacePool \<Rightarrow> int" where
  "RunspacePool_min_runspaces rp = crp_min_runspaces (sy_pool rp)"

definition RunspacePool_max_runspaces :: "RunspacePool \<Rightarrow> int" where
  "RunspacePool_max_runspaces rp = crp_max_runspaces (sy_pool rp)"

text \<open>\<open>Pipeline.had_errors\<close> and \<open>Pipeline.state\<close>.\<close>

definition Pipeline_state :: "Pipeline \<Rightarrow> PSInvocationState" where
  "Pipeline_state sp = cps_state (sy_pipeline sp)"

definition Pipeline_had_errors :: "Pipeline \<Rightarrow> bool" where
  "Pipeline_had_errors sp = (Pipeline_state sp = Failed)"

text \<open>
  \<open>_new_task\<close>. \<open>not output_stream\<close> holds for \<open>None\<close> and for a stream that is an
  empty list; then a new stream is made, and it is the task's output.
\<close>

definition Pipeline_new_task ::
  "nat option \<Rightarrow> nat option \<Rightarrow> bool \<Rightarrow> Pipeline \<times> Memory
     \<Rightarrow> PipelineTask \<times> Pipeline \<times> Memory" where
  "Pipeline_new_task output_stream given_event for_stop st =
     (case st of (sp, mem) \<Rightarrow>
        (case (case (case output_stream of
                       None \<Rightarrow> None
                     | Some a \<Rightarrow> if ds_items (stream_objs mem a) = [] then None else Some a) of
                 None \<Rightarrow>
                   (next_addr mem, Some (next_addr mem),
                    mem\<lparr>stream_objs := (stream_objs mem)(next_addr mem := PSDataStream_new),
                        next_addr := Suc (next_addr mem)\<rparr>)
               | Some a \<Rightarrow> (a, None, mem)) of
           (out, task_output, mem1) \<Rightarrow>
             (case (case given_event of
                      Some ev \<Rightarrow> (ev, mem1)
                    | None \<Rightarrow>
                        (next_addr mem1,
                         mem1\<lparr>event_flags := (event_flags mem1)(next_addr mem1 := False),
                              next_addr := Suc (next_addr mem1)\<rparr>)) of
                (ev, mem2) \<Rightarrow>
                  (\<lparr>task_completed = ev, task_output_stream = task_output\<rparr>,
                   (if for_stop
                    then sp\<lparr>sy_output_stream := Some out, sy_completed_stop := Some ev\<rparr>
                    else sp\<lparr>sy_output_stream := Some out, sy_completed := Some ev\<rparr>),
                   mem2))))"

text \<open>
  \<open>PipelineTask.wait\<close> returns once the event is set; \<open>None\<close> here says the caller
  is still blocked.
\<close>

definition PipelineTask_wait :: "PipelineTask \<Rightarrow> Memory \<Rightarrow> nat option option" where
  "PipelineTask_wait task mem =
     (if event_flags mem (task_completed task) then Some (task_output_stream task) else None)"

definition Pipeline_stop_async ::
  "nat option \<Rightarrow> Pipeline \<times> RunspacePool \<times> Memory
     \<Rightarrow> PipelineTask \<times> Pipeline \<times> RunspacePool \<times> Memory" where
  "Pipeline_stop_async given_event st =
     (case st of (sp, rp, mem) \<Rightarrow>
        (case Pipeline_new_task None given_event True (sp, mem) of
           (task, sp', mem') \<Rightarrow>
             (task, sp',
              rp\<lparr>sy_connection :=
                   sy_connection rp @ [ConnSignal (cps_pipeline_id (sy_pipeline sp))]\<rparr>,
              mem')))"

text \<open>
  Whether a call has returned, or has left its thread blocked. \<open>stop\<close> waits on the
  task of \<open>stop_async\<close> right away.
\<close>

datatype control = Returned | Blocked

definition Pipeline_stop ::
  "Pipeline \<times> RunspacePool \<times> Memory \<Rightarrow> control \<times> Pipeline \<times> RunspacePool \<times> Memory" where
  "Pipeline_stop st =
     (case Pipeline_stop_async None st of
        (task, sp', rp', mem') \<Rightarrow>
          ((case PipelineTask_wait task mem' of None \<Rightarrow> Blocked | Some _ \<Rightarrow> Returned),
           sp', rp', mem'))"

definition NotImplementedError :: PyException where
  "NotImplementedError = PyException ''NotImplementedError'' []"

text \<open>\<open>func() if func else _not_implemented()\<close>.\<close>

definition call_func_sync :: "PSObject outcome option \<Rightarrow> PSObject outcome" where
  "call_func_sync func = (case func of Some r \<Rightarrow> r | None \<Rightarrow> Raises NotImplementedError)"

text \<open>
  \<open>Pipeline._on_host_call\<close>, which the listener thread runs. The event gives \<open>ci\<close>,
  \<open>mi\<close> and \<open>mp\<close>.
\<close>

definition Pipeline_on_host_call ::
  "psrpcore \<Rightarrow> int \<Rightarrow> HostMethodIdentifier \<Rightarrow> PSObject list
     \<Rightarrow> Pipeline \<times> RunspacePool \<times> Memory
     \<Rightarrow> PyException + (control \<times> Pipeline \<times> RunspacePool \<times> Memory)" where
  "Pipeline_on_host_call P ci mi mp st =
     (case st of (sp, rp, mem) \<Rightarrow>
        (let host = (case sy_host sp of Some h \<Rightarrow> Some h | None \<Rightarrow> sy_pool_host rp)
         in case get_host_method P host mi mp of
              Inl e \<Rightarrow> Inl e
            | Inr method_metadata \<Rightarrow>
                (case call_func_sync (invoke method_metadata) of
                   Raises e \<Rightarrow>
                     (let error_record = host_call_error_record (format_mi P) mi e
                      in if is_void method_metadata then
                           (case PSDataStream_append (PSErrorRecord error_record)
                                   (sy_streams sp ''error'') of
                              Inl e' \<Rightarrow> Inl e'
                            | Inr s' \<Rightarrow>
                                Inr (Pipeline_stop
                                       (sp\<lparr>sy_streams := (sy_streams sp)(''error'' := s')\<rparr>,
                                        rp, mem)))
                         else
                           Inr (Returned, sp,
                                rp\<lparr>sy_pool := host_response ci PSNull (Some error_record)
                                                  (sy_pool rp),
                                   sy_connection := sy_connection rp @ [ConnSendAll]\<rparr>,
                                mem))
                 | Returns return_value \<Rightarrow>
                     (if \<not> is_void method_metadata then
                        Inr (Returned, sp,
                             rp\<lparr>sy_pool := host_response ci return_value None (sy_pool rp),
                                sy_connection := sy_connection rp @ [ConnSendAll]\<rparr>,
                             mem)
                      else Inr (Returned, sp, rp, mem)))))"

section \<open>Availability operations\<close>

text \<open>The attributes \<open>ci\<close> and \<open>success\<close> of an event; only some events have them.\<close>

definition event_ci :: "PSRPEvent \<Rightarrow> int option" where
  "event_ci e =
     (case payload e of
        GetRunspaceAvailabilityEvent ci _ \<Rightarrow> Some ci
      | SetRunspaceAvailabilityEvent ci _ \<Rightarrow> Some ci
      | PipelineHostCallEvent ci _ _ \<Rightarrow> Some ci
      | RunspacePoolHostCallEvent ci _ _ \<Rightarrow> Some ci
      | _ \<Rightarrow> None)"

definition event_success :: "PSRPEvent \<Rightarrow> PyException + bool" where
  "event_success e =
     (case payload e of
        SetRunspaceAvailabilityEvent _ success \<Rightarrow> Inr success
      | _ \<Rightarrow> Inl (AttributeError ''success''))"

text \<open>
  \<open>AsyncRunspacePool._send_set_runspace_availability_ci\<close>. \<open>addr\<close> is the address of
  the new waiter; \<open>incoming\<close> are the events the dispatcher receives while the caller
  waits, of which the pool's own list sees those with no pipeline id. The result is
  \<open>None\<close> while the caller is still suspended.
\<close>

definition AsyncRunspacePool_send_set_runspace_availability_ci ::
  "int option \<Rightarrow> nat \<Rightarrow> PSRPEvent list \<Rightarrow> 'w AsyncRunspacePool \<times> waiters
     \<Rightarrow> (PyException + bool) option \<times> 'w AsyncRunspacePool \<times> waiters" where
  "AsyncRunspacePool_send_set_runspace_availability_ci ci addr incoming st =
     (case st of (rp, mem) \<Rightarrow>
        (case ci of
           None \<Rightarrow> (Some (Inr True), rp, mem)
         | Some c \<Rightarrow>
             (let mem1 = mem(addr := MessageResult_new TSetRunspaceAvailability
                                       (Some (\<lambda>e. event_ci e = Some c)));
                  rp1 = rp\<lparr>rp_result_handler := rp_result_handler rp @ [addr]\<rparr>;
                  rp2 = rp1\<lparr>rp_connection := rp_connection rp1 @ [ConnSendAll]\<rparr>
              in case dispatcher_run
                        (map Deliver (filter (\<lambda>e. pipeline_id e = None) incoming))
                        (mem1, rp_result_handler rp2, []) of
                   (mem2, handlers2, _) \<Rightarrow>
                     ((case MessageResult_wait (mem2 addr) of
                         None \<Rightarrow> None
                       | Some None \<Rightarrow> Some (Inl (AttributeError ''success''))
                       | Some (Some result) \<Rightarrow> Some (event_success result)),
                      rp2\<lparr>rp_result_handler := handlers2\<rparr>, mem2))))"

text \<open>
  The sync pool. The first statement of \<open>_get_event_registrations\<close> files every event
  of four classes in \<open>_ci_table\<close> under its \<open>ci\<close>.
\<close>

definition RunspacePool_record_ci ::
  "PSRPEvent \<Rightarrow> (int \<rightharpoonup> PSRPEvent) \<Rightarrow> (int \<rightharpoonup> PSRPEvent)" where
  "RunspacePool_record_ci event ci_table =
     (case payload event of
        PipelineHostCallEvent ci _ _ \<Rightarrow> ci_table(ci \<mapsto> event)
      | GetRunspaceAvailabilityEvent ci _ \<Rightarrow> ci_table(ci \<mapsto> event)
      | SetRunspaceAvailabilityEvent ci _ \<Rightarrow> ci_table(ci \<mapsto> event)
      | RunspacePoolHostCallEvent ci _ _ \<Rightarrow> ci_table(ci \<mapsto> event)
      | _ \<Rightarrow> ci_table)"

text \<open>
  One pass of the loop of \<open>_response_listener\<close> for an event with no pipeline id.
  \<open>_get_event_registrations\<close> files the event and returns the pool's own registrations
  for the message type: the one \<open>threading.Condition\<close> that \<open>__init__\<close> put there. The loop
  notifies it and goes on. The pool registers no callback, for a host call or for any
  other message, and it has no streams.
\<close>

definition RunspacePool_response_listener_pool :: "PSRPEvent \<Rightarrow> RunspacePool \<Rightarrow> RunspacePool" where
  "RunspacePool_response_listener_pool event rp =
     rp\<lparr>sy_ci_table := RunspacePool_record_ci event (sy_ci_table rp)\<rparr>"

text \<open>The events whose message type is \<open>RunspaceAvailability\<close>.\<close>

definition is_RunspaceAvailability :: "PSRPEvent \<Rightarrow> bool" where
  "is_RunspaceAvailability e =
     (case payload e of
        GetRunspaceAvailabilityEvent _ _ \<Rightarrow> True
      | SetRunspaceAvailabilityEvent _ _ \<Rightarrow> True
      | _ \<Rightarrow> False)"

text \<open>
  \<open>cond.wait_for(lambda: ci in self._ci_table)\<close> while the listener files the incoming
  events: the predicate is tested at once, and again each time the condition of the
  message type \<open>RunspaceAvailability\<close> is notified. The result is the table when the
  wait ends, \<open>None\<close> if it does not end on these events.
\<close>

fun wait_for_ci ::
  "bool \<Rightarrow> int \<Rightarrow> PSRPEvent list \<Rightarrow> (int \<rightharpoonup> PSRPEvent) \<Rightarrow> (int \<rightharpoonup> PSRPEvent) option" where
  "wait_for_ci test ci [] ci_table =
     (if test \<and> ci_table ci \<noteq> None then Some ci_table else None)"
| "wait_for_ci test ci (event # rest) ci_table =
     (if test \<and> ci_table ci \<noteq> None then Some ci_table
      else wait_for_ci (is_RunspaceAvailability event) ci rest
             (RunspacePool_record_ci event ci_table))"

definition RunspacePool_validate_runspace_availability ::
  "int option \<Rightarrow> PSRPEvent list \<Rightarrow> RunspacePool
     \<Rightarrow> (PyException + bool) option \<times> RunspacePool" where
  "RunspacePool_validate_runspace_availability ci incoming rp =
     (case ci of
        None \<Rightarrow> (Some (Inr True), rp)
      | Some c \<Rightarrow>
          (let rp1 = rp\<lparr>sy_connection := sy_connection rp @ [ConnSendAll]\<rparr>
           in case wait_for_ci True c incoming (sy_ci_table rp1) of
                None \<Rightarrow> (None, rp1)
              | Some ci_table \<Rightarrow>
                  (case ci_table c of
                     None \<Rightarrow> (Some (Inl (KeyError ''ci'')), rp1\<lparr>sy_ci_table := ci_table\<rparr>)
                   | Some event \<Rightarrow>
                       (Some (event_success event),
                        rp1\<lparr>sy_ci_table := ci_table(c := None)\<rparr>))))"

section \<open>The fluent builders (\<open>AsyncPowerShell\<close>, \<open>PowerShell\<close>)\<close>

text \<open>
  The builder methods of the codec's pipeline belong to \<open>psrpcore\<close>: they are
  parameters of the model, and each may raise. A pipeline object is named by its
  address; a method returns a reference (\<open>Some self\<close> for \<open>return self\<close>) or \<open>None\<close>,
  and the memory of pipeline objects as it leaves it.
\<close>

record ClientPowerShell_methods =
  cp_add_argument :: "PSObject \<Rightarrow> ClientPowerShell \<Rightarrow> PyException + ClientPowerShell"
  cp_add_command :: "string \<Rightarrow> bool option \<Rightarrow> ClientPowerShell \<Rightarrow> PyException + ClientPowerShell"
  cp_add_parameter :: "string \<Rightarrow> PSObject \<Rightarrow> ClientPowerShell \<Rightarrow> PyException + ClientPowerShell"
  cp_add_parameters :: "(string \<times> PSObject) list \<Rightarrow> ClientPowerShell \<Rightarrow> PyException + ClientPowerShell"
  cp_add_script :: "string \<Rightarrow> bool option \<Rightarrow> ClientPowerShell \<Rightarrow> PyException + ClientPowerShell"
  cp_add_statement :: "ClientPowerShell \<Rightarrow> PyException + ClientPowerShell"

definition async_update ::
  "PyException + ClientPowerShell \<Rightarrow> nat option \<Rightarrow> nat \<Rightarrow> (nat \<Rightarrow> 'w AsyncPipeline)
     \<Rightarrow> PyException + (nat option \<times> (nat \<Rightarrow> 'w AsyncPipeline))" where
  "async_update r ret self pls =
     (case r of
        Inl e \<Rightarrow> Inl e
      | Inr cp \<Rightarrow> Inr (ret, pls(self := (pls self)\<lparr>pl_pipeline := cp\<rparr>)))"

definition AsyncPowerShell_add_argument ::
  "ClientPowerShell_methods \<Rightarrow> PSObject \<Rightarrow> nat \<Rightarrow> (nat \<Rightarrow> 'w AsyncPipeline)
     \<Rightarrow> PyException + (nat option \<times> (nat \<Rightarrow> 'w AsyncPipeline))" where
  "AsyncPowerShell_add_argument C v self pls =
     async_update (cp_add_argument C v (pl_pipeline (pls self))) (Some self) self pls"

definition AsyncPowerShell_add_command ::
  "ClientPowerShell_methods \<Rightarrow> string \<Rightarrow> bool option \<Rightarrow> nat \<Rightarrow> (nat \<Rightarrow> 'w AsyncPipeline)
     \<Rightarrow> PyException + (nat option \<times> (nat \<Rightarrow> 'w AsyncPipeline))" where
  "AsyncPowerShell_add_command C cmdlet use_local_scope self pls =
     async_update (cp_add_command C cmdlet use_local_scope (pl_pipeline (pls self)))
       (Some self) self pls"

definition AsyncPowerShell_add_parameter ::
  "ClientPowerShell_methods \<Rightarrow> string \<Rightarrow> PSObject \<Rightarrow> nat \<Rightarrow> (nat \<Rightarrow> 'w AsyncPipeline)
     \<Rightarrow> PyException + (nat option \<times> (nat \<Rightarrow> 'w AsyncPipeline))" where
  "AsyncPowerShell_add_parameter C name v self pls =
     async_update (cp_add_parameter C name v (pl_pipeline (pls self))) (Some self) self pls"

definition AsyncPowerShell_add_parameters ::
  "ClientPowerShell_methods \<Rightarrow> (string \<times> PSObject) list \<Rightarrow> nat \<Rightarrow> (nat \<Rightarrow> 'w AsyncPipeline)
     \<Rightarrow> PyException + (nat option \<times> (nat \<Rightarrow> 'w AsyncPipeline))" where
  "AsyncPowerShell_add_parameters C parameters self pls =
     async_update (cp_add_parameters C parameters (pl_pipeline (pls self))) (Some self) self pls"

definition AsyncPowerShell_add_script ::
  "ClientPowerShell_methods \<Rightarrow> string \<Rightarrow> bool option \<Rightarrow> nat \<Rightarrow> (nat \<Rightarrow> 'w AsyncPipeline)
     \<Rightarrow> PyException + (nat option \<times> (nat \<Rightarrow> 'w AsyncPipeline))" where
  "AsyncPowerShell_add_script C script use_local_scope self pls =
     async_update (cp_add_script C script use_local_scope (pl_pipeline (pls self)))
       (Some self) self pls"

definition AsyncPowerShell_add_statement ::
  "ClientPowerShell_methods \<Rightarrow> nat \<Rightarrow> (nat \<Rightarrow> 'w AsyncPipeline)
     \<Rightarrow> PyException + (nat option \<times> (nat \<Rightarrow> 'w AsyncPipeline))" where
  "AsyncPowerShell_add_statement C self pls =
     async_update (cp_add_statement C (pl_pipeline (pls self))) (Some self) self pls"

text \<open>
  The sync \<open>PowerShell\<close> has three builders. \<open>add_command\<close> has no \<open>return\<close>
  statement, so it returns \<open>None\<close>.
\<close>

definition sync_update ::
  "PyException + ClientPowerShell \<Rightarrow> nat option \<Rightarrow> nat \<Rightarrow> (nat \<Rightarrow> Pipeline)
     \<Rightarrow> PyException + (nat option \<times> (nat \<Rightarrow> Pipeline))" where
  "sync_update r ret self pls =
     (case r of
        Inl e \<Rightarrow> Inl e
      | Inr cp \<Rightarrow> Inr (ret, pls(self := (pls self)\<lparr>sy_pipeline := cp\<rparr>)))"

definition PowerShell_add_command ::
  "ClientPowerShell_methods \<Rightarrow> string \<Rightarrow> bool option \<Rightarrow> nat \<Rightarrow> (nat \<Rightarrow> Pipeline)
     \<Rightarrow> PyException + (nat option \<times> (nat \<Rightarrow> Pipeline))" where
  "PowerShell_add_command C cmdlet use_local_scope self pls =
     sync_update (cp_add_command C cmdlet use_local_scope (sy_pipeline (pls self)))
       None self pls"

definition PowerShell_add_script ::
  "ClientPowerShell_methods \<Rightarrow> string \<Rightarrow> bool option \<Rightarrow> nat \<Rightarrow> (nat \<Rightarrow> Pipeline)
     \<Rightarrow> PyException + (nat option \<times> (nat \<Rightarrow> Pipeline))" where
  "PowerShell_add_script C script use_local_scope self pls =
     sync_update (cp_add_script C script use_local_scope (sy_pipeline (pls self)))
       (Some self) self pls"

definition PowerShell_add_statement ::
  "ClientPowerShell_methods \<Rightarrow> nat \<Rightarrow> (nat \<Rightarrow> Pipeline)
     \<Rightarrow> PyException + (nat option \<times> (nat \<Rightarrow> Pipeline))" where
  "PowerShell_add_statement C self pls =
     sync_update (cp_add_statement C (sy_pipeline (pls self))) (Some self) self pls"

section \<open>Invoking a pipeline\<close>

definition is_MissingCipherError :: "PyException \<Rightarrow> bool" where
  "is_MissingCipherError e = (qualname e = ''MissingCipherError'')"

text \<open>
  Modelled from the spec: what the codec's pool does on \<open>exchange_key()\<close> (it is asked
  for a key exchange) and on decoding the peer's encrypted session key (from then on
  the key is negotiated).
\<close>

definition ClientRunspacePool_exchange_key :: "ClientRunspacePool \<Rightarrow> ClientRunspacePool" where
  "ClientRunspacePool_exchange_key pool =
     pool\<lparr>crp_calls := crp_calls pool @ [CallExchangeKey]\<rparr>"

definition ClientRunspacePool_session_key_received ::
  "ClientRunspacePool \<Rightarrow> ClientRunspacePool" where
  "ClientRunspacePool_session_key_received pool = pool\<lparr>crp_cipher := True\<rparr>"

text \<open>
  \<open>AsyncRunspacePool.exchange_key\<close>: a waiter for the key event at the next free
  address, the request, \<open>send_all\<close>, and the wait. \<open>answered\<close> says whether the peer's
  key arrives; when it does, the codec decodes it and the dispatcher offers the event
  to the pool's waiters. \<open>None\<close> says the caller stays suspended.
\<close>

definition AsyncRunspacePool_exchange_key ::
  "bool \<Rightarrow> 'w AsyncRunspacePool \<times> waiters \<times> nat
     \<Rightarrow> ('w AsyncRunspacePool \<times> waiters \<times> nat) option" where
  "AsyncRunspacePool_exchange_key answered st =
     (case st of (rp, mem, nxt) \<Rightarrow>
        (let mem1 = mem(nxt := MessageResult_new TEncryptedSessionKey None);
             rp1 = rp\<lparr>rp_result_handler := rp_result_handler rp @ [nxt]\<rparr>;
             rp2 = rp1\<lparr>rp_pool := ClientRunspacePool_exchange_key (rp_pool rp1)\<rparr>;
             rp3 = rp2\<lparr>rp_connection := rp_connection rp2 @ [ConnSendAll]\<rparr>
         in if answered then
              (let rp4 = rp3\<lparr>rp_pool := ClientRunspacePool_session_key_received (rp_pool rp3)\<rparr>
               in case offer_handlers (PSRPEvent None EncryptedSessionKeyEvent)
                         (rp_result_handler rp4) (mem1, rp_result_handler rp4, []) of
                    (mem2, handlers2, _) \<Rightarrow>
                      (case MessageResult_wait (mem2 nxt) of
                         None \<Rightarrow> None
                       | Some _ \<Rightarrow> Some (rp4\<lparr>rp_result_handler := handlers2\<rparr>, mem2, Suc nxt)))
            else None))"

text \<open>
  The two \<open>try\<close> blocks of \<open>invoke_async\<close>: the call on the codec, and on
  \<open>MissingCipherError\<close> a key exchange and the same call once more, outside any
  handler. The state is the pool, the waiters and the next free address; \<open>cp\<close> is the
  pipeline's codec object. An exception ends the call (\<open>Some (Inl e)\<close>).
\<close>

definition AsyncPipeline_try_start ::
  "bool \<Rightarrow> ClientPowerShell \<Rightarrow> 'w AsyncRunspacePool \<times> waiters \<times> nat
     \<Rightarrow> (PyException + ClientPowerShell \<times> 'w AsyncRunspacePool \<times> waiters \<times> nat) option" where
  "AsyncPipeline_try_start answered cp st =
     (case st of (rp, mem, nxt) \<Rightarrow>
        (case ClientPowerShell_start cp (rp_pool rp) of
           (Inr cp', pool1) \<Rightarrow> Some (Inr (cp', rp\<lparr>rp_pool := pool1\<rparr>, mem, nxt))
         | (Inl e, pool1) \<Rightarrow>
             (if is_MissingCipherError e then
                (case AsyncRunspacePool_exchange_key answered (rp\<lparr>rp_pool := pool1\<rparr>, mem, nxt) of
                   None \<Rightarrow> None
                 | Some (rp2, mem2, nxt2) \<Rightarrow>
                     (case ClientPowerShell_start cp (rp_pool rp2) of
                        (Inr cp', pool3) \<Rightarrow> Some (Inr (cp', rp2\<lparr>rp_pool := pool3\<rparr>, mem2, nxt2))
                      | (Inl e2, pool3) \<Rightarrow> Some (Inl e2)))
              else Some (Inl e))))"

definition AsyncPipeline_try_send ::
  "bool \<Rightarrow> ClientPowerShell \<Rightarrow> PSObject \<Rightarrow> 'w AsyncRunspacePool \<times> waiters \<times> nat
     \<Rightarrow> (PyException + 'w AsyncRunspacePool \<times> waiters \<times> nat) option" where
  "AsyncPipeline_try_send answered cp data st =
     (case st of (rp, mem, nxt) \<Rightarrow>
        (case ClientPowerShell_send data cp (rp_pool rp) of
           (Inr _, pool1) \<Rightarrow> Some (Inr (rp\<lparr>rp_pool := pool1\<rparr>, mem, nxt))
         | (Inl e, pool1) \<Rightarrow>
             (if is_MissingCipherError e then
                (case AsyncRunspacePool_exchange_key answered (rp\<lparr>rp_pool := pool1\<rparr>, mem, nxt) of
                   None \<Rightarrow> None
                 | Some (rp2, mem2, nxt2) \<Rightarrow>
                     (case ClientPowerShell_send data cp (rp_pool rp2) of
                        (Inr _, pool3) \<Rightarrow> Some (Inr (rp2\<lparr>rp_pool := pool3\<rparr>, mem2, nxt2))
                      | (Inl e2, pool3) \<Rightarrow> Some (Inl e2)))
              else Some (Inl e))))"

text \<open>The input loop of \<open>AsyncPipeline.invoke_async\<close>, item by item.\<close>

fun AsyncPipeline_send_input ::
  "bool \<Rightarrow> bool \<Rightarrow> ClientPowerShell \<Rightarrow> PSObject list
     \<Rightarrow> 'w AsyncRunspacePool \<times> waiters \<times> nat
     \<Rightarrow> (PyException + 'w AsyncRunspacePool \<times> waiters \<times> nat) option" where
  "AsyncPipeline_send_input answered buffer_input cp [] st = Some (Inr st)"
| "AsyncPipeline_send_input answered buffer_input cp (data # rest) st =
     (case AsyncPipeline_try_send answered cp data st of
        None \<Rightarrow> None
      | Some (Inl e) \<Rightarrow> Some (Inl e)
      | Some (Inr (rp', mem', nxt')) \<Rightarrow>
          AsyncPipeline_send_input answered buffer_input cp rest
            (rp'\<lparr>rp_connection := rp_connection rp'
                    @ [if buffer_input then ConnSendBuffer else ConnSendAll]\<rparr>,
             mem', nxt'))"

text \<open>The first lines of \<open>invoke_async\<close> and \<open>connect_async\<close>: where the output goes.\<close>

definition AsyncPipeline_set_output ::
  "(PSObject, 'w) AsyncPSDataCollection option \<Rightarrow> 'w AsyncPipeline \<Rightarrow> 'w AsyncPipeline" where
  "AsyncPipeline_set_output output_stream p =
     (case output_stream of
        Some s \<Rightarrow> p\<lparr>pl_explicit_output := True, pl_stream_output := s\<rparr>
      | None \<Rightarrow> p\<lparr>pl_stream_output := AsyncPSDataCollection_new\<rparr>)"

text \<open>The attribute \<open>state\<close> of an event.\<close>

definition event_state :: "PSRPEvent \<Rightarrow> PSInvocationState option" where
  "event_state e = (case payload e of PipelineStateEvent st _ \<Rightarrow> Some st | _ \<Rightarrow> None)"

text \<open>
  The start of \<open>_pipelines_task\<close>, up to \<open>ready.set()\<close>: the waiter for the terminal
  state, at the address \<open>addr\<close>.
\<close>

definition AsyncPipeline_pipelines_task_arm ::
  "nat \<Rightarrow> 'w AsyncPipeline \<times> waiters \<Rightarrow> 'w AsyncPipeline \<times> waiters" where
  "AsyncPipeline_pipelines_task_arm addr st =
     (case st of (p, mem) \<Rightarrow>
        (p\<lparr>pl_result_handler := pl_result_handler p @ [addr]\<rparr>,
         mem(addr := MessageResult_new TPipelineState
                       (Some (\<lambda>e. event_state e \<noteq> Some Running)))))"

text \<open>
  \<open>AsyncPipeline.invoke_async\<close> for the pipeline object at \<open>self\<close>. The state is the
  pool, the pipeline objects, the waiters and the next free address. It returns the
  task, named by the address of its waiter.
\<close>

definition AsyncPipeline_invoke_async ::
  "bool \<Rightarrow> PSObject list option \<Rightarrow> (PSObject, 'w) AsyncPSDataCollection option \<Rightarrow> bool \<Rightarrow> nat
     \<Rightarrow> 'w AsyncRunspacePool \<times> (nat \<Rightarrow> 'w AsyncPipeline) \<times> waiters \<times> nat
     \<Rightarrow> (PyException
          + nat \<times> 'w AsyncRunspacePool \<times> (nat \<Rightarrow> 'w AsyncPipeline) \<times> waiters \<times> nat) option" where
  "AsyncPipeline_invoke_async answered input_data output_stream buffer_input self st =
     (case st of (rp, pls, mem, nxt) \<Rightarrow>
        (case AsyncPipeline_pipelines_task_arm nxt
                (AsyncPipeline_set_output output_stream (pls self), mem) of
           (p, mem0) \<Rightarrow>
             (let task = nxt; pid = cps_pipeline_id (pl_pipeline p)
              in case AsyncPipeline_try_start answered (pl_pipeline p) (rp, mem0, Suc nxt) of
                   None \<Rightarrow> None
                 | Some (Inl e) \<Rightarrow> Some (Inl e)
                 | Some (Inr (cp, rp1, mem1, nxt1)) \<Rightarrow>
                     (let pls1 = pls(self := p\<lparr>pl_pipeline := cp\<rparr>);
                          rp2 = rp1\<lparr>rp_pipeline_table := (rp_pipeline_table rp1)(pid \<mapsto> self),
                                    rp_connection := rp_connection rp1
                                      @ [ConnCommand pid, ConnSendAll]\<rparr>
                      in case input_data of
                           None \<Rightarrow> Some (Inr (task, rp2, pls1, mem1, nxt1))
                         | Some xs \<Rightarrow>
                             (case AsyncPipeline_send_input answered buffer_input cp xs
                                     (rp2, mem1, nxt1) of
                                None \<Rightarrow> None
                              | Some (Inl e) \<Rightarrow> Some (Inl e)
                              | Some (Inr (rp3, mem3, nxt3)) \<Rightarrow>
                                  Some (Inr (task,
                                    rp3\<lparr>rp_pool := ClientPowerShell_send_eof cp (rp_pool rp3),
                                        rp_connection := rp_connection rp3 @ [ConnSendAll]\<rparr>,
                                    pls1, mem3, nxt3)))))))"

text \<open>\<open>AsyncPowerShell.invoke_async\<close> sets \<open>no_input\<close> first.\<close>

definition AsyncPowerShell_invoke_async ::
  "bool \<Rightarrow> PSObject list option \<Rightarrow> (PSObject, 'w) AsyncPSDataCollection option \<Rightarrow> bool \<Rightarrow> nat
     \<Rightarrow> 'w AsyncRunspacePool \<times> (nat \<Rightarrow> 'w AsyncPipeline) \<times> waiters \<times> nat
     \<Rightarrow> (PyException
          + nat \<times> 'w AsyncRunspacePool \<times> (nat \<Rightarrow> 'w AsyncPipeline) \<times> waiters \<times> nat) option" where
  "AsyncPowerShell_invoke_async answered input_data output_stream buffer_input self st =
     (case st of (rp, pls, mem, nxt) \<Rightarrow>
        AsyncPipeline_invoke_async answered input_data output_stream buffer_input self
          (rp,
           pls(self := (pls self)\<lparr>pl_pipeline :=
                 (pl_pipeline (pls self))\<lparr>cps_no_input := (input_data = None)\<rparr>\<rparr>),
           mem, nxt))"

text \<open>\<open>AsyncPipeline.close\<close>.\<close>

definition AsyncPipeline_close ::
  "nat \<Rightarrow> 'w AsyncRunspacePool \<times> (nat \<Rightarrow> 'w AsyncPipeline) \<Rightarrow> 'w AsyncRunspacePool" where
  "AsyncPipeline_close self st =
     (case st of (rp, pls) \<Rightarrow>
        (let pid = cps_pipeline_id (pl_pipeline (pls self))
         in case rp_pipeline_table rp pid of
              None \<Rightarrow> rp
            | Some a \<Rightarrow>
                (if cps_state (pl_pipeline (pls a)) = Disconnected then rp
                 else rp\<lparr>rp_connection := rp_connection rp @ [ConnClose (Some pid)],
                         rp_pipeline_table := (rp_pipeline_table rp)(pid := None)\<rparr>)))"

definition PipelineFailed :: "string \<Rightarrow> PyException" where
  "PipelineFailed err = PyException ''PipelineFailed'' err"

definition PipelineStopped :: "string \<Rightarrow> PyException" where
  "PipelineStopped err = PyException ''PipelineStopped'' err"

text \<open>
  The rest of \<open>_pipelines_task\<close>, from \<open>await event.wait()\<close> on: the optional
  callback, \<open>close\<close>, and the translation of the state the waiter caught. The result
  is \<open>None\<close> while the waiter is not set.
\<close>

definition AsyncPipeline_pipelines_task ::
  "(unit, 'w) callback option \<Rightarrow> nat \<Rightarrow> nat
     \<Rightarrow> 'w AsyncRunspacePool \<times> (nat \<Rightarrow> 'w AsyncPipeline) \<times> waiters \<times> 'w
     \<Rightarrow> (PyException + PSObject list) option \<times> 'w AsyncRunspacePool \<times> 'w" where
  "AsyncPipeline_pipelines_task on_complete self task st =
     (case st of (rp, pls, mem, w) \<Rightarrow>
        (case MessageResult_wait (mem task) of
           None \<Rightarrow> (None, rp, w)
         | Some state \<Rightarrow>
             (let w' = (case on_complete of None \<Rightarrow> w | Some cb \<Rightarrow> wrap_invoke cb () w);
                  rp' = AsyncPipeline_close self (rp, pls)
              in (Some
                   (case Option.bind state (\<lambda>s. case payload s of
                                                   PipelineStateEvent st reason \<Rightarrow> Some (st, reason)
                                                 | _ \<Rightarrow> None) of
                      None \<Rightarrow> Inl (AttributeError ''state'')
                    | Some (st, reason) \<Rightarrow>
                        (if st = Failed then
                           Inl (PipelineFailed
                                  (case reason of Some r \<Rightarrow> r | None \<Rightarrow> ''Unknown failure.''))
                         else if st = Stopped then
                           Inl (PipelineStopped
                                  (case reason of Some r \<Rightarrow> r
                                   | None \<Rightarrow> ''The pipeline has been stopped.''))
                         else Inr (if pl_explicit_output (pls self) then []
                                   else items (pl_stream_output (pls self))))),
                  rp', w'))))"

text \<open>
  The sync facade. \<open>RunspacePool.exchange_key\<close>: the request, then
  \<open>_send_and_wait_for\<close> the key message.
\<close>

definition RunspacePool_exchange_key :: "bool \<Rightarrow> RunspacePool \<Rightarrow> RunspacePool option" where
  "RunspacePool_exchange_key answered rp =
     (let rp1 = rp\<lparr>sy_pool := ClientRunspacePool_exchange_key (sy_pool rp)\<rparr>;
          rp2 = rp1\<lparr>sy_connection := sy_connection rp1 @ [ConnSendAll]\<rparr>
      in if answered
         then Some (rp2\<lparr>sy_pool := ClientRunspacePool_session_key_received (sy_pool rp2)\<rparr>)
         else None)"

text \<open>
  The same two \<open>try\<close> blocks in \<open>Pipeline.invoke_async\<close>. The sync facade calls the
  codec's start under the name \<open>pipeline.invoke()\<close> and its end of input under the name
  \<open>pipeline.send_end()\<close>; they are the codec operations that the async facade calls
  \<open>start()\<close> and \<open>send_eof()\<close>.
\<close>

definition Pipeline_try_start ::
  "bool \<Rightarrow> ClientPowerShell \<Rightarrow> RunspacePool
     \<Rightarrow> (PyException + ClientPowerShell \<times> RunspacePool) option" where
  "Pipeline_try_start answered cp rp =
     (case ClientPowerShell_start cp (sy_pool rp) of
        (Inr cp', pool1) \<Rightarrow> Some (Inr (cp', rp\<lparr>sy_pool := pool1\<rparr>))
      | (Inl e, pool1) \<Rightarrow>
          (if is_MissingCipherError e then
             (case RunspacePool_exchange_key answered (rp\<lparr>sy_pool := pool1\<rparr>) of
                None \<Rightarrow> None
              | Some rp2 \<Rightarrow>
                  (case ClientPowerShell_start cp (sy_pool rp2) of
                     (Inr cp', pool3) \<Rightarrow> Some (Inr (cp', rp2\<lparr>sy_pool := pool3\<rparr>))
                   | (Inl e2, pool3) \<Rightarrow> Some (Inl e2)))
           else Some (Inl e)))"

definition Pipeline_try_send ::
  "bool \<Rightarrow> ClientPowerShell \<Rightarrow> PSObject \<Rightarrow> RunspacePool
     \<Rightarrow> (PyException + RunspacePool) option" where
  "Pipeline_try_send answered cp data rp =
     (case ClientPowerShell_send data cp (sy_pool rp) of
        (Inr _, pool1) \<Rightarrow> Some (Inr (rp\<lparr>sy_pool := pool1\<rparr>))
      | (Inl e, pool1) \<Rightarrow>
          (if is_MissingCipherError e then
             (case RunspacePool_exchange_key answered (rp\<lparr>sy_pool := pool1\<rparr>) of
                None \<Rightarrow> None
              | Some rp2 \<Rightarrow>
                  (case ClientPowerShell_send data cp (sy_pool rp2) of
                     (Inr _, pool3) \<Rightarrow> Some (Inr (rp2\<lparr>sy_pool := pool3\<rparr>))
                   | (Inl e2, pool3) \<Rightarrow> Some (Inl e2)))
           else Some (Inl e)))"

fun Pipeline_send_input ::
  "bool \<Rightarrow> bool \<Rightarrow> ClientPowerShell \<Rightarrow> PSObject list \<Rightarrow> RunspacePool
     \<Rightarrow> (PyException + RunspacePool) option" where
  "Pipeline_send_input answered buffer_input cp [] rp = Some (Inr rp)"
| "Pipeline_send_input answered buffer_input cp (data # rest) rp =
     (case Pipeline_try_send answered cp data rp of
        None \<Rightarrow> None
      | Some (Inl e) \<Rightarrow> Some (Inl e)
      | Some (Inr rp') \<Rightarrow>
          Pipeline_send_input answered buffer_input cp rest
            (rp'\<lparr>sy_connection := sy_connection rp'
                    @ [if buffer_input then ConnSendBuffer else ConnSendAll]\<rparr>))"

text \<open>
  \<open>Pipeline.invoke_async\<close> for the pipeline object at \<open>self\<close>, whose fields are
  \<open>sp\<close>.
\<close>

definition Pipeline_invoke_async ::
  "bool \<Rightarrow> PSObject list option \<Rightarrow> nat option \<Rightarrow> nat option \<Rightarrow> bool \<Rightarrow> nat
     \<Rightarrow> Pipeline \<times> RunspacePool \<times> Memory
     \<Rightarrow> (PyException + PipelineTask \<times> Pipeline \<times> RunspacePool \<times> Memory) option" where
  "Pipeline_invoke_async answered input_data output_stream given_event buffer_input self st =
     (case st of (sp0, rp, mem0) \<Rightarrow>
        (case Pipeline_new_task output_stream given_event False (sp0, mem0) of
           (task, sp, mem) \<Rightarrow>
             (let pid = cps_pipeline_id (sy_pipeline sp)
              in case Pipeline_try_start answered (sy_pipeline sp) rp of
                   None \<Rightarrow> None
                 | Some (Inl e) \<Rightarrow> Some (Inl e)
                 | Some (Inr (cp, rp1)) \<Rightarrow>
                     (let sp1 = sp\<lparr>sy_pipeline := cp\<rparr>;
                          rp2 = rp1\<lparr>sy_pipeline_table := (sy_pipeline_table rp1)(pid \<mapsto> self),
                                    sy_connection := sy_connection rp1
                                      @ [ConnCommand pid, ConnSendAll]\<rparr>
                      in case input_data of
                           None \<Rightarrow> Some (Inr (task, sp1, rp2, mem))
                         | Some xs \<Rightarrow>
                             (case Pipeline_send_input answered buffer_input cp xs rp2 of
                                None \<Rightarrow> None
                              | Some (Inl e) \<Rightarrow> Some (Inl e)
                              | Some (Inr rp3) \<Rightarrow>
                                  Some (Inr (task, sp1,
                                    rp3\<lparr>sy_pool := ClientPowerShell_send_eof cp (sy_pool rp3),
                                        sy_connection := sy_connection rp3 @ [ConnSendAll]\<rparr>,
                                    mem)))))))"

text \<open>\<open>PowerShell.invoke_async\<close> sets \<open>no_input\<close> first.\<close>

definition PowerShell_invoke_async ::
  "bool \<Rightarrow> PSObject list option \<Rightarrow> nat option \<Rightarrow> nat option \<Rightarrow> bool \<Rightarrow> nat
     \<Rightarrow> Pipeline \<times> RunspacePool \<times> Memory
     \<Rightarrow> (PyException + PipelineTask \<times> Pipeline \<times> RunspacePool \<times> Memory) option" where
  "PowerShell_invoke_async answered input_data output_stream given_event buffer_input self st =
     (case st of (sp, rp, mem) \<Rightarrow>
        Pipeline_invoke_async answered input_data output_stream given_event buffer_input self
          (sp\<lparr>sy_pipeline := (sy_pipeline sp)\<lparr>cps_no_input := (input_data = None)\<rparr>\<rparr>, rp, mem))"

text \<open>
  \<open>Pipeline.close\<close> and \<open>Pipeline._on_state\<close>, which the listener thread runs for every
  \<open>PipelineState\<close> message. The pipeline objects are kept by address, as the pool's table
  names them. \<open>close\<close> raises nothing here, so the \<open>finally\<close> block follows it; an
  attribute that is \<open>None\<close> raises \<open>AttributeError\<close> there.
\<close>

definition Pipeline_close :: "nat \<Rightarrow> RunspacePool \<times> (nat \<Rightarrow> Pipeline) \<Rightarrow> RunspacePool" where
  "Pipeline_close self st =
     (case st of (rp, pls) \<Rightarrow>
        (let pid = cps_pipeline_id (sy_pipeline (pls self))
         in case sy_pipeline_table rp pid of
              None \<Rightarrow> rp
            | Some a \<Rightarrow>
                (if cps_state (sy_pipeline (pls a)) = Disconnected then rp
                 else rp\<lparr>sy_connection := sy_connection rp @ [ConnClose (Some pid)],
                         sy_pipeline_table := (sy_pipeline_table rp)(pid := None)\<rparr>)))"

definition Pipeline_on_state ::
  "nat \<Rightarrow> RunspacePool \<times> (nat \<Rightarrow> Pipeline) \<times> Memory
     \<Rightarrow> PyException option \<times> RunspacePool \<times> (nat \<Rightarrow> Pipeline) \<times> Memory" where
  "Pipeline_on_state self st =
     (case st of (rp, pls, mem) \<Rightarrow>
        (let rp' = Pipeline_close self (rp, pls);
             sp = pls self;
             sp1 = sp\<lparr>sy_streams := (\<lambda>name. PSDataStream_finalize (sy_streams sp name))\<rparr>
         in case sy_output_stream sp1 of
              None \<Rightarrow> (Some (AttributeError ''finalize''), rp', pls(self := sp1), mem)
            | Some out \<Rightarrow>
                (let mem1 = mem\<lparr>stream_objs :=
                                  (stream_objs mem)(out := PSDataStream_finalize (stream_objs mem out))\<rparr>;
                     sp2 = sp1\<lparr>sy_output_stream := None\<rparr>
                 in case sy_completed sp2 of
                      None \<Rightarrow> (Some (AttributeError ''set''), rp', pls(self := sp2), mem1)
                    | Some ev \<Rightarrow>
                        (let mem2 = mem1\<lparr>event_flags := (event_flags mem1)(ev := True)\<rparr>;
                             sp3 = sp2\<lparr>sy_completed := None\<rparr>
                         in case sy_completed_stop sp3 of
                              None \<Rightarrow> (None, rp', pls(self := sp3), mem2)
                            | Some evs \<Rightarrow>
                                (None, rp', pls(self := sp3\<lparr>sy_completed_stop := None\<rparr>),
                                 mem2\<lparr>event_flags := (event_flags mem2)(evs := True)\<rparr>)))))"

section \<open>Notions the properties are stated with\<close>

text \<open>
  The subtree a method lives on is absent: the host has no \<open>ui\<close> for a method of the
  UI, no \<open>ui\<close> or no \<open>raw_ui\<close> under it for a method of the raw UI.
\<close>

definition subtree_absent :: "PSHost \<Rightarrow> HostMethodIdentifier \<Rightarrow> bool" where
  "subtree_absent host mi =
     (let host_type = snd (snd (host_method_table mi))
      in if host_type = ''ui'' then ui host = None
         else if host_type = ''raw_ui''
           then (case ui host of None \<Rightarrow> True | Some u \<Rightarrow> raw_ui u = None)
         else False)"

text \<open>
  The single-retry pattern, in the words of the claim: the calls an invoke makes on
  the codec. An attempt that meets a secure string with no key negotiated is followed
  by one key exchange and one retry; every other attempt stands alone. \<open>cipher\<close> says
  whether a key is negotiated before the attempt.
\<close>

fun retry_once_sends :: "nat \<Rightarrow> bool \<Rightarrow> PSObject list \<Rightarrow> codec_call list" where
  "retry_once_sends pid cipher [] = []"
| "retry_once_sends pid cipher (x # xs) =
     (if is_secure x \<and> \<not> cipher
      then [CallSend pid x, CallExchangeKey, CallSend pid x] @ retry_once_sends pid True xs
      else [CallSend pid x] @ retry_once_sends pid cipher xs)"

definition retry_once_calls ::
  "nat \<Rightarrow> bool \<Rightarrow> PSObject list \<Rightarrow> PSObject list option \<Rightarrow> codec_call list" where
  "retry_once_calls pid cipher vals input_data =
     (if list_ex is_secure vals \<and> \<not> cipher
      then [CallStart pid, CallExchangeKey, CallStart pid]
      else [CallStart pid])
     @ (case input_data of
          None \<Rightarrow> []
        | Some xs \<Rightarrow>
            retry_once_sends pid (cipher \<or> list_ex is_secure vals) xs @ [CallSendEof pid])"

text \<open>Concrete inputs for the closed theorems.\<close>

definition example_psrpcore :: psrpcore where
  "example_psrpcore =
     \<lparr>ConsoleColor = Inr,
      Coordinates = (\<lambda>x y. Inr (PSRaw [(''X'', x), (''Y'', y)])),
      Size = (\<lambda>h wd. Inr (PSRaw [(''Height'', h), (''Width'', wd)])),
      str_mi = (\<lambda>_. ''HostMethodIdentifier''),
      format_mi = (\<lambda>_. ''HostMethodIdentifier'')\<rparr>"


definition host_failing_exit :: PSHost where
  "host_failing_exit =
     \<lparr>host_attrs = [''set_should_exit'' \<mapsto> (\<lambda>_. Raises (PyException ''RuntimeError'' ''boom''))],
      ui = None\<rparr>"

definition example_pool :: ClientRunspacePool where
  "example_pool = ClientRunspacePool_new 1 1 7"

definition example_sync_pipeline :: Pipeline where
  "example_sync_pipeline =
     \<lparr>sy_pipeline = \<lparr>cps_pipeline_id = 3, cps_state = Running, cps_values = [],
                      cps_no_input = True\<rparr>,
      sy_streams = (\<lambda>_. PSDataStream_new), sy_output_stream = Some 0,
      sy_completed = Some 1, sy_completed_stop = None, sy_host = None\<rparr>"

definition example_sync_pool :: "PSHost \<Rightarrow> RunspacePool" where
  "example_sync_pool host =
     \<lparr>sy_pool = example_pool, sy_connection = [], sy_pool_host = Some host,
      sy_pipeline_table = [3 \<mapsto> 0], sy_new_client = False, sy_ci_table = Map.empty\<rparr>"

definition example_memory :: Memory where
  "example_memory =
     \<lparr>event_flags = (\<lambda>_. False), stream_objs = (\<lambda>_. PSDataStream_new), next_addr = 2\<rparr>"

text \<open>
  A sync pipeline that was not invoked yet, a pool that knows no pipeline, the same pipeline
  once the codec has read a state message of the peer, and builder methods of the codec that
  record what is added.
\<close>

definition new_sync_pipeline :: Pipeline where
  "new_sync_pipeline =
     \<lparr>sy_pipeline = \<lparr>cps_pipeline_id = 3, cps_state = NotStarted, cps_values = [],
                      cps_no_input = True\<rparr>,
      sy_streams = (\<lambda>_. PSDataStream_new), sy_output_stream = None,
      sy_completed = None, sy_completed_stop = None, sy_host = None\<rparr>"

definition new_sync_pool :: RunspacePool where
  "new_sync_pool =
     \<lparr>sy_pool = example_pool, sy_connection = [], sy_pool_host = None,
      sy_pipeline_table = Map.empty, sy_new_client = False, sy_ci_table = Map.empty\<rparr>"

definition state_received :: "PSInvocationState \<Rightarrow> Pipeline \<Rightarrow> Pipeline" where
  "state_received st sp = sp\<lparr>sy_pipeline := (sy_pipeline sp)\<lparr>cps_state := st\<rparr>\<rparr>"

definition example_methods :: ClientPowerShell_methods where
  "example_methods =
     \<lparr>cp_add_argument = (\<lambda>v cp. Inr (cp\<lparr>cps_values := cps_values cp @ [v]\<rparr>)),
      cp_add_command = (\<lambda>c u cp. Inr (cp\<lparr>cps_values := cps_values cp @ [PSStr c]\<rparr>)),
      cp_add_parameter = (\<lambda>n v cp. Inr (cp\<lparr>cps_values := cps_values cp @ [PSStr n, v]\<rparr>)),
      cp_add_parameters = (\<lambda>ps cp. Inr (cp\<lparr>cps_values := cps_values cp @ map snd ps\<rparr>)),
      cp_add_script = (\<lambda>s u cp. Inr (cp\<lparr>cps_values := cps_values cp @ [PSStr s]\<rparr>)),
      cp_add_statement = (\<lambda>cp. Inr cp)\<rparr>"








text \<open>
  Two states of a result waiter of the same kind: the declared event type and the predicate are
  the same, and an event that was set stays set.
\<close>

definition same_kind :: "MessageResult \<Rightarrow> MessageResult \<Rightarrow> bool" where
  "same_kind m m' = (mr_event_type m' = mr_event_type m \<and> mr_condition m' = mr_condition m
                      \<and> (mr_event m \<longrightarrow> mr_event m'))"

chapter \<open>Properties\<close>

section \<open>Data collections\<close>

lemma append'_completed:
  "completed c \<Longrightarrow> AsyncPSDataCollection_append' closed_meanwhile v c w = Inr (c, w)"
  by (simp add: AsyncPSDataCollection_append'_def)

lemma append'_closed_meanwhile:
  "\<not> completed c \<Longrightarrow> AsyncPSDataCollection_append' True v c w = Inl ClosedCollection"
  by (simp add: AsyncPSDataCollection_append'_def AsyncPSDataCollection_append_def Let_def)

lemma append'_open:
  "\<not> completed c \<Longrightarrow>
   \<exists>c' w'. AsyncPSDataCollection_append' False v c w = Inr (c', w')
     \<and> items c' = items c @ [v] \<and> completed c' = completed c"
  by (simp add: AsyncPSDataCollection_append'_def AsyncPSDataCollection_append_def Let_def)

lemma complete_marks_completed:
  "completed (fst (AsyncPSDataCollection_complete c w))"
  by (simp add: AsyncPSDataCollection_complete_def Let_def)

text \<open>
  The async collection, for comparison: once it is marked complete, the protocol's
  append (\<open>_append\<close>) returns with the collection and the application's state as they
  were, so the length is unchanged and no subscriber ran, and \<open>append\<close> and \<open>insert\<close> by
  the application fail with ClosedCollection.
\<close>

lemma async_collection_completed:
  assumes "completed c"
  shows "AsyncPSDataCollection_append' closed_meanwhile v c w = Inr (c, w)
       \<and> AsyncPSDataCollection_append v c = Inl ClosedCollection
       \<and> AsyncPSDataCollection_insert i v c = Inl ClosedCollection"
  using assms
  by (simp add: AsyncPSDataCollection_append'_def AsyncPSDataCollection_append_def
      AsyncPSDataCollection_insert_def)

lemma async_collection_completed_example:
  "AsyncPSDataCollection_append' False (5::int)
        (fst (AsyncPSDataCollection_complete AsyncPSDataCollection_new (0::nat))) (7::nat)
      = Inr (fst (AsyncPSDataCollection_complete AsyncPSDataCollection_new 0), 7)
   \<and> AsyncPSDataCollection_append (5::int)
        (fst (AsyncPSDataCollection_complete (AsyncPSDataCollection_new :: (int, nat) AsyncPSDataCollection) 0))
      = Inl ClosedCollection
   \<and> AsyncPSDataCollection_insert 0 (5::int)
        (fst (AsyncPSDataCollection_complete (AsyncPSDataCollection_new :: (int, nat) AsyncPSDataCollection) 0))
      = Inl ClosedCollection"
  using async_collection_completed [OF complete_marks_completed, of False 5 AsyncPSDataCollection_new "0::nat" "7::nat" 0]
  by simp

text \<open>The sync stream, once \<open>wait\<close> has set its flag: \<open>append\<close> returns and changes nothing.\<close>

lemma sync_stream_complete_append:
  "complete s \<Longrightarrow> PSDataStream_append x s = Inr s"
  by (simp add: PSDataStream_append_def)

text \<open>\<open>finalize\<close> does not set the flag, and \<open>insert\<close> never reads it.\<close>

lemma finalize_keeps_flag: "complete (PSDataStream_finalize s) = complete s"
  by (simp add: PSDataStream_finalize_def)

lemma sync_stream_insert_unguarded:
  "- (2 ^ 63) \<le> i \<Longrightarrow> i < 2 ^ 63 \<Longrightarrow>
   \<exists>s'. PSDataStream_insert i x s = Inr s' \<and> length (ds_items s') = Suc (length (ds_items s))"
  by (auto simp: PSDataStream_insert_def list_insert_def Let_def)

text \<open>
  C4, on the sync stream. A stream that \<open>finalize\<close> has closed (as \<open>_on_state\<close> does at the
  end of a pipeline) still stores an appended value. Once its reader has taken the end
  marker, so that \<open>_complete\<close> is set, \<open>append\<close> by the application returns and raises
  nothing, and \<open>insert\<close> stores its value; neither fails with ClosedCollection.
\<close>

theorem C4_sync_stream_not_closed:
  "PSDataStream_append (PSInt 1) (PSDataStream_finalize PSDataStream_new)
     = Inr \<lparr>ds_items = [PSInt 1], added_idx = [None, Some 0], complete = False\<rparr>
   \<and> PSDataStream_wait (PSDataStream_finalize PSDataStream_new)
     = Some (Inr None, \<lparr>ds_items = [], added_idx = [], complete = True\<rparr>)
   \<and> PSDataStream_append (PSInt 1) \<lparr>ds_items = [], added_idx = [], complete = True\<rparr>
     = Inr \<lparr>ds_items = [], added_idx = [], complete = True\<rparr>
   \<and> PSDataStream_insert 0 (PSInt 1) \<lparr>ds_items = [], added_idx = [], complete = True\<rparr>
     = Inr \<lparr>ds_items = [PSInt 1], added_idx = [], complete = True\<rparr>"
  by (simp add: PSDataStream_append_def PSDataStream_finalize_def PSDataStream_new_def
      PSDataStream_wait_def PSDataStream_insert_def list_insert_def)

section \<open>Result waiters\<close>

lemma accepted_calls_append:
  "accepted_calls a (xs @ ys) = accepted_calls a xs + accepted_calls a ys"
  by (simp add: accepted_calls_def)

lemma accepted_calls_zero: "(a, True) \<notin> set calls \<Longrightarrow> accepted_calls a calls = 0"
  by (induction calls) (auto simp: accepted_calls_def)

text \<open>
  One pass of the loop keeps the invariant: the waiters still to be offered the event
  and the waiters left in the list have not accepted yet, and no waiter has accepted
  twice.
\<close>

lemma offer_handlers_inv:
  "inv_calls todo hs calls \<Longrightarrow> offer_handlers ev todo (mem, hs, calls) = (mem', hs', calls')
     \<Longrightarrow> inv_calls [] hs' calls' \<and> set hs' \<subseteq> set hs
         \<and> fst ` set calls' \<subseteq> fst ` set calls \<union> set todo"
proof (induction todo arbitrary: mem hs calls)
  case Nil
  then show ?case by (simp add: inv_calls_def)
next
  case (Cons a todo)
  obtain acc m where s: "MessageResult_set ev (mem a) = (acc, m)"
    by (cases "MessageResult_set ev (mem a)")
  let ?hs = "if acc then remove1 a hs else hs"
  let ?calls = "calls @ [(a, acc)]"
  have step: "offer_handlers ev todo (mem(a := m), ?hs, ?calls) = (mem', hs', calls')"
    using Cons.prems(2) s by simp
  have notyet: "(a, True) \<notin> set calls"
    using Cons.prems(1) by (auto simp: inv_calls_def)
  have zero: "accepted_calls a calls = 0"
    using notyet by (rule accepted_calls_zero)
  have cnt: "accepted_calls b ?calls \<le> 1" for b
  proof (cases "b = a")
    case True
    then show ?thesis
      using zero by (simp add: accepted_calls_append) (simp add: accepted_calls_def)
  next
    case False
    have "accepted_calls b calls \<le> 1" using Cons.prems(1) by (simp add: inv_calls_def)
    then show ?thesis
      using False by (simp add: accepted_calls_append) (simp add: accepted_calls_def)
  qed
  have inv: "inv_calls todo ?hs ?calls"
    unfolding inv_calls_def
  proof (intro conjI allI impI)
    show "distinct todo" using Cons.prems(1) by (simp add: inv_calls_def)
    show "distinct ?hs" using Cons.prems(1) by (simp add: inv_calls_def)
    show "b \<notin> set todo" if "(b, True) \<in> set ?calls" for b
      using that Cons.prems(1) by (auto simp: inv_calls_def)
    show "b \<notin> set ?hs" if "(b, True) \<in> set ?calls" for b
      using that Cons.prems(1) by (auto simp: inv_calls_def dest: notin_set_remove1)
    show "accepted_calls b ?calls \<le> 1" for b by (rule cnt)
  qed
  have sub: "set ?hs \<subseteq> set hs"
    using set_remove1_subset[of a hs] by auto
  from Cons.IH[OF inv step]
  have r1: "inv_calls [] hs' calls'" and r2: "set hs' \<subseteq> set ?hs"
    and r3: "fst ` set calls' \<subseteq> fst ` set ?calls \<union> set todo" by blast+
  have "fst ` set ?calls \<union> set todo \<subseteq> fst ` set calls \<union> set (a # todo)" by auto
  with r1 r2 r3 sub show ?case by blast
qed

lemma dispatcher_run_inv:
  "inv_calls [] hs calls \<Longrightarrow> distinct (hs @ armed acts)
     \<Longrightarrow> fst ` set calls \<inter> set (armed acts) = {}
     \<Longrightarrow> dispatcher_run acts (mem, hs, calls) = (mem', hs', calls')
     \<Longrightarrow> inv_calls [] hs' calls'"
proof (induction acts arbitrary: mem hs calls)
  case Nil
  then show ?case by simp
next
  case (Cons act acts)
  show ?case
  proof (cases act)
    case (Arm a m)
    have run: "dispatcher_run acts (mem(a := m), hs @ [a], calls) = (mem', hs', calls')"
      using Cons.prems(4) Arm by simp
    have a_new: "(a, True) \<notin> set calls"
      using Cons.prems(3) Arm by (force simp: image_iff)
    have inv: "inv_calls [] (hs @ [a]) calls"
      using Cons.prems(1,2) Arm a_new by (auto simp: inv_calls_def)
    have d: "distinct ((hs @ [a]) @ armed acts)"
      using Cons.prems(2) Arm by auto
    have f: "fst ` set calls \<inter> set (armed acts) = {}"
      using Cons.prems(3) Arm by auto
    from Cons.IH[OF inv d f run] show ?thesis .
  next
    case (Deliver ev)
    obtain mem1 hs1 calls1
      where o: "offer_handlers ev hs (mem, hs, calls) = (mem1, hs1, calls1)"
      by (cases "offer_handlers ev hs (mem, hs, calls)") auto
    have run: "dispatcher_run acts (mem1, hs1, calls1) = (mem', hs', calls')"
      using Cons.prems(4) Deliver o by simp
    have inv0: "inv_calls hs hs calls"
      using Cons.prems(1) by (auto simp: inv_calls_def)
    from offer_handlers_inv[OF inv0 o]
    have inv1: "inv_calls [] hs1 calls1" and sub: "set hs1 \<subseteq> set hs"
      and dom: "fst ` set calls1 \<subseteq> fst ` set calls \<union> set hs" by auto
    have d: "distinct (hs1 @ armed acts)"
      using Cons.prems(2) Deliver sub inv1 by (auto simp: inv_calls_def)
    have h: "set hs \<inter> set (armed acts) = {}"
      using Cons.prems(2) Deliver by auto
    have c: "fst ` set calls \<inter> set (armed acts) = {}"
      using Cons.prems(3) Deliver by simp
    have f: "fst ` set calls1 \<inter> set (armed acts) = {}"
      using dom h c by blast
    from Cons.IH[OF inv1 d f run] show ?thesis .
  qed
qed

text \<open>
  C3, as the claim states it, fails: \<open>set\<close> has no memory of having accepted. Two calls
  with a matching event on one waiter both return true.
\<close>

theorem C3_set_twice_counterexample:
  "fst (MessageResult_set (PSRPEvent None EncryptedSessionKeyEvent)
         (MessageResult_new TEncryptedSessionKey None))
   \<and> fst (MessageResult_set (PSRPEvent None EncryptedSessionKeyEvent)
           (snd (MessageResult_set (PSRPEvent None EncryptedSessionKeyEvent)
                  (MessageResult_new TEncryptedSessionKey None))))"
  by (simp add: MessageResult_set_def MessageResult_new_def isinstance_event_def)

text \<open>
  C3, amended. \<open>set\<close> returns true exactly when the event is of the declared kind and
  satisfies the predicate, if there is one, whatever the waiter accepted before. The
  dispatcher is what makes a waiter one-shot: it removes a waiter from the pending list
  when \<open>set\<close> returns true. So, for a pending list whose waiters are each armed once
  (\<open>distinct\<close>) and any interleaving of arming and delivered events, at most one of the
  dispatcher's calls of \<open>set\<close> on a waiter returns true.
\<close>

theorem C3_dispatcher_one_shot:
  assumes "distinct (hs @ armed acts)"
  shows "fst (MessageResult_set value m)
           = (isinstance_event value (mr_event_type m)
              \<and> (case mr_condition m of None \<Rightarrow> True | Some cond \<Rightarrow> cond value))
       \<and> accepted_calls a (snd (snd (dispatcher_run acts (mem, hs, [])))) \<le> 1"
proof -
  obtain mem' hs' calls' where r: "dispatcher_run acts (mem, hs, []) = (mem', hs', calls')"
    by (cases "dispatcher_run acts (mem, hs, [])") auto
  have inv: "inv_calls [] hs []"
    using assms by (simp add: inv_calls_def accepted_calls_def)
  have "inv_calls [] hs' calls'"
    by (rule dispatcher_run_inv[OF inv assms _ r]) simp
  then have "accepted_calls a calls' \<le> 1" by (simp add: inv_calls_def)
  moreover have "fst (MessageResult_set value m)
           = (isinstance_event value (mr_event_type m)
              \<and> (case mr_condition m of None \<Rightarrow> True | Some cond \<Rightarrow> cond value))"
    by (simp add: MessageResult_set_def)
  ultimately show ?thesis using r by simp
qed

theorem C3_dispatcher_one_shot_witness:
  "distinct ([0, 1] @ armed [Deliver (PSRPEvent None EncryptedSessionKeyEvent),
                             Arm 2 (MessageResult_new TEncryptedSessionKey None),
                             Deliver (PSRPEvent None EncryptedSessionKeyEvent)])
   \<and> accepted_calls 0
        (snd (snd (dispatcher_run
           [Deliver (PSRPEvent None EncryptedSessionKeyEvent),
            Arm 2 (MessageResult_new TEncryptedSessionKey None),
            Deliver (PSRPEvent None EncryptedSessionKeyEvent)]
           (\<lambda>_. MessageResult_new TEncryptedSessionKey None, [0, 1], [])))) \<le> 1"
proof -
  have d: "distinct ([0, 1] @ armed [Deliver (PSRPEvent None EncryptedSessionKeyEvent),
                             Arm 2 (MessageResult_new TEncryptedSessionKey None),
                             Deliver (PSRPEvent None EncryptedSessionKeyEvent)])"
    by simp
  from C3_dispatcher_one_shot[OF d] d show ?thesis by blast
qed

section \<open>Host calls\<close>

lemma host_type_cases:
  "snd (snd (host_method_table mi)) = ''host'' \<or> snd (snd (host_method_table mi)) = ''ui''
   \<or> snd (snd (host_method_table mi)) = ''raw_ui''"
  by (cases mi) simp_all


lemma walk_absent:
  assumes "subtree_absent host mi"
  shows "walk_host (Some host) (snd (snd (host_method_table mi))) = None"
proof -
  let ?t = "snd (snd (host_method_table mi))"
  consider "?t = ''host''" | "?t = ''ui''" | "?t = ''raw_ui''"
    using host_type_cases[of mi] by blast
  then show ?thesis
  proof cases
    case 1
    then show ?thesis using assms by (simp add: subtree_absent_def)
  next
    case 2
    then show ?thesis using assms by (simp add: subtree_absent_def walk_host_def)
  next
    case 3
    then show ?thesis using assms
      by (cases "ui host") (auto simp: subtree_absent_def walk_host_def)
  qed
qed

lemma get_host_method_absent:
  "subtree_absent host mi \<Longrightarrow>
   get_host_method P (Some host) mi mp
     = Inr \<lparr>is_void = fst (snd (host_method_table mi)), invoke = None\<rparr>"
  using walk_absent[of host mi]
  by (cases "host_method_table mi") (simp add: get_host_method_def)

lemma fqid: "FullyQualifiedErrorId (host_call_error_record r mi e) = ''RemoteHostExecutionException''"
  by (simp add: host_call_error_record_def Let_def)





text \<open>
  The sync facade, for comparison. Its pipeline handles a host call in \<open>_on_host_call\<close>;
  after a void method has failed it calls \<open>self.stop()\<close> on the listener thread, which
  then waits for an event that only the listener could set. Its pool leaves a host call
  that is addressed to the pool unanswered.
\<close>

lemma PSDataStream_append_items:
  "\<exists>s'. PSDataStream_append x s = Inr s'
     \<and> ds_items s' = (if complete s then ds_items s else ds_items s @ [x])"
  by (simp add: PSDataStream_append_def)

lemma Pipeline_stop_keeps:
  "Pipeline_stop (sp, rp, mem) = (c, sp', rp', mem')
     \<Longrightarrow> sy_pool rp' = sy_pool rp \<and> sy_streams sp' = sy_streams sp"
  by (auto simp: Pipeline_stop_def Pipeline_stop_async_def Pipeline_new_task_def
           split: prod.splits option.splits if_splits)

lemma on_host_call_returns:
  assumes "(case sy_host sp of Some h \<Rightarrow> Some h | None \<Rightarrow> sy_pool_host rp) = Some host"
    and "get_host_method P (Some host) mi mp = Inr md"
    and "call_func_sync (invoke md) = Returns v"
  shows "Pipeline_on_host_call P ci mi mp (sp, rp, mem)
          = (if is_void md then Inr (Returned, sp, rp, mem)
             else Inr (Returned, sp,
                       rp\<lparr>sy_pool := host_response ci v None (sy_pool rp),
                          sy_connection := sy_connection rp @ [ConnSendAll]\<rparr>, mem))"
  unfolding Pipeline_on_host_call_def using assms by (simp add: Let_def)

lemma on_host_call_raises:
  assumes "(case sy_host sp of Some h \<Rightarrow> Some h | None \<Rightarrow> sy_pool_host rp) = Some host"
    and "get_host_method P (Some host) mi mp = Inr md"
    and "call_func_sync (invoke md) = Raises e"
  shows "Pipeline_on_host_call P ci mi mp (sp, rp, mem)
          = (if is_void md then
               (case PSDataStream_append
                       (PSErrorRecord (host_call_error_record (format_mi P) mi e))
                       (sy_streams sp ''error'') of
                  Inl e' \<Rightarrow> Inl e'
                | Inr s' \<Rightarrow>
                    Inr (Pipeline_stop (sp\<lparr>sy_streams := (sy_streams sp)(''error'' := s')\<rparr>,
                                        rp, mem)))
             else Inr (Returned, sp,
                       rp\<lparr>sy_pool := host_response ci PSNull
                                         (Some (host_call_error_record (format_mi P) mi e))
                                         (sy_pool rp),
                          sy_connection := sy_connection rp @ [ConnSendAll]\<rparr>, mem))"
  unfolding Pipeline_on_host_call_def using assms by (simp add: Let_def)

lemma sync_host_call_outcome:
  assumes res: "get_host_method P (Some host) mi mp = Inr md"
    and h: "(case sy_host sp of Some h \<Rightarrow> Some h | None \<Rightarrow> sy_pool_host rp) = Some host"
  shows
   "(case call_func_sync (invoke md) of
         Returns v \<Rightarrow>
           Pipeline_on_host_call P ci mi mp (sp, rp, mem)
             = (if is_void md then Inr (Returned, sp, rp, mem)
                else Inr (Returned, sp,
                          rp\<lparr>sy_pool := (sy_pool rp)\<lparr>crp_host_responses :=
                                            crp_host_responses (sy_pool rp) @ [(ci, v, None)]\<rparr>,
                             sy_connection := sy_connection rp @ [ConnSendAll]\<rparr>, mem))
       | Raises e \<Rightarrow>
           (if is_void md then
              (\<exists>c sp' rp' mem'. Pipeline_on_host_call P ci mi mp (sp, rp, mem)
                                  = Inr (c, sp', rp', mem')
                 \<and> sy_pool rp' = sy_pool rp
                 \<and> ds_items (sy_streams sp' ''error'')
                     = (if complete (sy_streams sp ''error'') then ds_items (sy_streams sp ''error'')
                        else ds_items (sy_streams sp ''error'')
                             @ [PSErrorRecord (host_call_error_record (format_mi P) mi e)]))
            else Pipeline_on_host_call P ci mi mp (sp, rp, mem)
                   = Inr (Returned, sp,
                          rp\<lparr>sy_pool := (sy_pool rp)\<lparr>crp_host_responses :=
                                crp_host_responses (sy_pool rp)
                                @ [(ci, PSNull, Some (host_call_error_record (format_mi P) mi e))]\<rparr>,
                             sy_connection := sy_connection rp @ [ConnSendAll]\<rparr>, mem))
           \<and> FullyQualifiedErrorId (host_call_error_record (format_mi P) mi e)
               = ''RemoteHostExecutionException'')"
proof (cases "call_func_sync (invoke md)")
  case (Returns v)
  show ?thesis
    using on_host_call_returns[OF h res Returns, of ci mem] Returns
    by (simp add: host_response_def)
next
  case (Raises e)
  let ?er = "PSErrorRecord (host_call_error_record (format_mi P) mi e)"
  let ?s = "sy_streams sp ''error''"
  obtain s' where a: "PSDataStream_append ?er ?s = Inr s'"
    and i: "ds_items s' = (if complete ?s then ds_items ?s else ds_items ?s @ [?er])"
    using PSDataStream_append_items[of ?er ?s] by blast
  show ?thesis
  proof (cases "is_void md")
    case True
    let ?sp = "sp\<lparr>sy_streams := (sy_streams sp)(''error'' := s')\<rparr>"
    obtain c sp' rp' mem' where st: "Pipeline_stop (?sp, rp, mem) = (c, sp', rp', mem')"
      by (cases "Pipeline_stop (?sp, rp, mem)") auto
    have k: "sy_pool rp' = sy_pool rp \<and> sy_streams sp' = sy_streams ?sp"
      using Pipeline_stop_keeps[OF st] .
    have "Pipeline_on_host_call P ci mi mp (sp, rp, mem) = Inr (c, sp', rp', mem')"
      using on_host_call_raises[OF h res Raises, of ci mem] True a st by simp
    moreover have "ds_items (sy_streams sp' ''error'') = ds_items s'" using k by simp
    ultimately show ?thesis using Raises True i k fqid by auto
  next
    case False
    show ?thesis
      using on_host_call_raises[OF h res Raises, of ci mem] Raises False fqid
      by (simp add: host_response_def)
  qed
qed

lemma ghm_failing_exit:
  "get_host_method example_psrpcore (Some host_failing_exit) SetShouldExit [PSInt 1]
     = Inr \<lparr>is_void = True, invoke = Some (Raises (PyException ''RuntimeError'' ''boom''))\<rparr>"
  by (simp add: get_host_method_def walk_host_def host_failing_exit_def adapt_parameters_def)

lemma sync_void_failure_blocks_listener:
  assumes "(case sy_host sp of Some h \<Rightarrow> Some h | None \<Rightarrow> sy_pool_host rp) = Some host"
    and "get_host_method P (Some host) mi mp = Inr md"
    and "call_func_sync (invoke md) = Raises e" and "is_void md"
  shows "\<exists>sp' rp' mem'. Pipeline_on_host_call P ci mi mp (sp, rp, mem)
                          = Inr (Blocked, sp', rp', mem')
           \<and> sy_connection rp'
               = sy_connection rp @ [ConnSignal (cps_pipeline_id (sy_pipeline sp))]"
  using on_host_call_raises[OF assms(1,2,3), of ci mem] assms(4)
  by (simp add: PSDataStream_append_def Pipeline_stop_def Pipeline_stop_async_def
      Pipeline_new_task_def PipelineTask_wait_def)

lemma sync_absent_void_blocks_listener:
  assumes "(case sy_host sp of Some h \<Rightarrow> Some h | None \<Rightarrow> sy_pool_host rp) = Some host"
    and "subtree_absent host mi" and "fst (snd (host_method_table mi))"
  shows "\<exists>sp' rp' mem'. Pipeline_on_host_call P ci mi mp (sp, rp, mem)
                          = Inr (Blocked, sp', rp', mem')
           \<and> sy_connection rp'
               = sy_connection rp @ [ConnSignal (cps_pipeline_id (sy_pipeline sp))]"
  using sync_void_failure_blocks_listener[OF assms(1) get_host_method_absent[OF assms(2)],
      where e = NotImplementedError and ci = ci and mem = mem and P = P and mp = mp] assms(3)
  by (simp add: call_func_sync_def)

lemma sync_void_failure_example:
  "(case Pipeline_on_host_call example_psrpcore (-100) SetShouldExit [PSInt 1]
           (example_sync_pipeline, example_sync_pool host_failing_exit, example_memory) of
      Inl e \<Rightarrow> False
    | Inr (c, sp', rp', mem') \<Rightarrow>
        c = Blocked \<and> sy_connection rp' = [ConnSignal 3]
        \<and> crp_host_responses (sy_pool rp') = []
        \<and> ds_items (sy_streams sp' ''error'')
            = [PSErrorRecord \<lparr>Exception = ''boom'',
                 FullyQualifiedErrorId = ''RemoteHostExecutionException'',
                 CategoryInfo_Reason = ''Exception''\<rparr>])"
  by (simp add: Pipeline_on_host_call_def ghm_failing_exit call_func_sync_def
      example_sync_pipeline_def example_sync_pool_def example_memory_def
      host_call_error_record_def PSDataStream_append_def PSDataStream_new_def
      Pipeline_stop_def Pipeline_stop_async_def Pipeline_new_task_def PipelineTask_wait_def
      example_pool_def ClientRunspacePool_new_def Let_def)

lemma sync_pool_host_call_unanswered:
  "sy_pool (RunspacePool_response_listener_pool
              (PSRPEvent None (RunspacePoolHostCallEvent ci mi mp)) rp) = sy_pool rp
   \<and> sy_connection (RunspacePool_response_listener_pool
                       (PSRPEvent None (RunspacePoolHostCallEvent ci mi mp)) rp)
       = sy_connection rp"
  by (simp add: RunspacePool_response_listener_pool_def)







section \<open>The retry after a missing cipher\<close>

lemma set_keeps:
  "mr_event_type (snd (MessageResult_set ev m)) = mr_event_type m
   \<and> mr_condition (snd (MessageResult_set ev m)) = mr_condition m
   \<and> (mr_event m \<longrightarrow> mr_event (snd (MessageResult_set ev m)))
   \<and> (fst (MessageResult_set ev m) \<longrightarrow> mr_event (snd (MessageResult_set ev m)))"
  by (simp add: MessageResult_set_def)

lemma set_fst_cong:
  "mr_event_type m' = mr_event_type m \<Longrightarrow> mr_condition m' = mr_condition m
     \<Longrightarrow> fst (MessageResult_set ev m') = fst (MessageResult_set ev m)"
  by (simp add: MessageResult_set_def)

lemma offer_handlers_sets:
  "offer_handlers ev todo (mem, hs, calls) = (mem', hs', calls')
     \<Longrightarrow> same_kind (mem a) (mem' a)
         \<and> (a \<in> set todo \<longrightarrow> fst (MessageResult_set ev (mem a)) \<longrightarrow> mr_event (mem' a))"
proof (induction todo arbitrary: mem hs calls)
  case Nil
  then show ?case by (simp add: same_kind_def)
next
  case (Cons b todo)
  obtain acc m where s: "MessageResult_set ev (mem b) = (acc, m)"
    by (cases "MessageResult_set ev (mem b)")
  let ?mem = "mem(b := m)"
  have step: "offer_handlers ev todo (?mem, if acc then remove1 b hs else hs, calls @ [(b, acc)])
                = (mem', hs', calls')"
    using Cons.prems s by simp
  note ih = Cons.IH[OF step]
  have k: "same_kind (mem a) (?mem a)"
    using set_keeps[of ev "mem b"] s by (auto simp: same_kind_def)
  have k2: "same_kind (mem a) (mem' a)"
    using k ih by (auto simp: same_kind_def)
  have acc_a: "fst (MessageResult_set ev (?mem a)) = fst (MessageResult_set ev (mem a))"
  proof (rule set_fst_cong)
    show "mr_event_type (?mem a) = mr_event_type (mem a)" using k by (simp add: same_kind_def)
    show "mr_condition (?mem a) = mr_condition (mem a)" using k by (simp add: same_kind_def)
  qed
  have "mr_event (mem' a)" if "a \<in> set (b # todo)" and "fst (MessageResult_set ev (mem a))"
  proof (cases "a = b")
    case True
    then have "mr_event (?mem a)" using that(2) s set_keeps[of ev "mem b"] by auto
    then show ?thesis using ih by (auto simp: same_kind_def)
  next
    case False
    then have "a \<in> set todo" using that(1) by simp
    then show ?thesis using ih acc_a that(2) by auto
  qed
  with k2 show ?case by blast
qed

lemma exchange_key_answered:
  "\<exists>rp' mem' nxt'. AsyncRunspacePool_exchange_key True (rp, mem, nxt) = Some (rp', mem', nxt')
     \<and> rp_pool rp' = (rp_pool rp)\<lparr>crp_calls := crp_calls (rp_pool rp) @ [CallExchangeKey],
                                   crp_cipher := True\<rparr>"
proof -
  let ?ev = "PSRPEvent None EncryptedSessionKeyEvent"
  let ?mem1 = "mem(nxt := MessageResult_new TEncryptedSessionKey None)"
  let ?hs = "rp_result_handler rp @ [nxt]"
  obtain mem2 hs2 calls2 where o: "offer_handlers ?ev ?hs (?mem1, ?hs, []) = (mem2, hs2, calls2)"
    by (cases "offer_handlers ?ev ?hs (?mem1, ?hs, [])") auto
  have "fst (MessageResult_set ?ev (?mem1 nxt))"
    by (simp add: MessageResult_set_def MessageResult_new_def isinstance_event_def)
  then have "mr_event (mem2 nxt)"
    using offer_handlers_sets[OF o, of nxt] by simp
  then have w: "MessageResult_wait (mem2 nxt) = Some (mr_result (mem2 nxt))"
    by (simp add: MessageResult_wait_def)
  show ?thesis
    using o w
    by (simp add: AsyncRunspacePool_exchange_key_def Let_def
        ClientRunspacePool_exchange_key_def ClientRunspacePool_session_key_received_def)
qed

lemma exchange_key_unanswered:
  "AsyncRunspacePool_exchange_key False st = None"
  by (cases st) (simp add: AsyncRunspacePool_exchange_key_def Let_def)


lemma MissingCipherError_is: "is_MissingCipherError MissingCipherError"
  by (simp add: is_MissingCipherError_def MissingCipherError_def)

lemma send_plain:
  "\<not> (is_secure x \<and> \<not> crp_cipher pool) \<Longrightarrow>
   ClientPowerShell_send x cp pool
     = (Inr (), pool\<lparr>crp_calls := crp_calls pool @ [CallSend (cps_pipeline_id cp) x]\<rparr>)"
  by (simp add: ClientPowerShell_send_def Let_def)

lemma send_missing:
  "is_secure x \<and> \<not> crp_cipher pool \<Longrightarrow>
   ClientPowerShell_send x cp pool
     = (Inl MissingCipherError,
        pool\<lparr>crp_calls := crp_calls pool @ [CallSend (cps_pipeline_id cp) x]\<rparr>)"
  by (simp add: ClientPowerShell_send_def Let_def)

lemma start_plain:
  "\<not> (list_ex is_secure (cps_values cp) \<and> \<not> crp_cipher pool) \<Longrightarrow>
   ClientPowerShell_start cp pool
     = (Inr (cp\<lparr>cps_state := Running\<rparr>),
        pool\<lparr>crp_calls := crp_calls pool @ [CallStart (cps_pipeline_id cp)]\<rparr>)"
  by (simp add: ClientPowerShell_start_def Let_def)

lemma start_missing:
  "list_ex is_secure (cps_values cp) \<and> \<not> crp_cipher pool \<Longrightarrow>
   ClientPowerShell_start cp pool
     = (Inl MissingCipherError,
        pool\<lparr>crp_calls := crp_calls pool @ [CallStart (cps_pipeline_id cp)]\<rparr>)"
  by (simp add: ClientPowerShell_start_def Let_def)


lemma try_send_answered:
  "\<exists>rp' mem' nxt'.
     AsyncPipeline_try_send True cp x (rp, mem, nxt) = Some (Inr (rp', mem', nxt'))
     \<and> crp_calls (rp_pool rp')
         = crp_calls (rp_pool rp)
           @ (if is_secure x \<and> \<not> crp_cipher (rp_pool rp)
              then [CallSend (cps_pipeline_id cp) x, CallExchangeKey, CallSend (cps_pipeline_id cp) x]
              else [CallSend (cps_pipeline_id cp) x])
     \<and> crp_cipher (rp_pool rp') = (crp_cipher (rp_pool rp) \<or> is_secure x)"
proof (cases "is_secure x \<and> \<not> crp_cipher (rp_pool rp)")
  case False
  then show ?thesis
    using send_plain[of x "rp_pool rp" cp] by (auto simp: AsyncPipeline_try_send_def)
next
  case True
  let ?pool1 = "(rp_pool rp)\<lparr>crp_calls := crp_calls (rp_pool rp) @ [CallSend (cps_pipeline_id cp) x]\<rparr>"
  obtain rp2 mem2 nxt2 where
    x: "AsyncRunspacePool_exchange_key True (rp\<lparr>rp_pool := ?pool1\<rparr>, mem, nxt) = Some (rp2, mem2, nxt2)"
    and p: "rp_pool rp2 = ?pool1\<lparr>crp_calls := crp_calls ?pool1 @ [CallExchangeKey], crp_cipher := True\<rparr>"
    using exchange_key_answered[of "rp\<lparr>rp_pool := ?pool1\<rparr>" mem nxt] by auto
  have s2: "ClientPowerShell_send x cp (rp_pool rp2)
     = (Inr (), (rp_pool rp2)\<lparr>crp_calls := crp_calls (rp_pool rp2) @ [CallSend (cps_pipeline_id cp) x]\<rparr>)"
    by (rule send_plain) (simp add: p)
  show ?thesis
    using True send_missing[OF True, of cp] MissingCipherError_is x s2 p
    by (simp add: AsyncPipeline_try_send_def)
qed

lemma send_cases:
  "ClientPowerShell_send x cp pool
     = (if is_secure x \<and> \<not> crp_cipher pool then Inl MissingCipherError else Inr (),
        pool\<lparr>crp_calls := crp_calls pool @ [CallSend (cps_pipeline_id cp) x]\<rparr>)"
  by (simp add: ClientPowerShell_send_def Let_def)

lemma start_cases:
  "ClientPowerShell_start cp pool
     = (if list_ex is_secure (cps_values cp) \<and> \<not> crp_cipher pool then Inl MissingCipherError
        else Inr (cp\<lparr>cps_state := Running\<rparr>),
        pool\<lparr>crp_calls := crp_calls pool @ [CallStart (cps_pipeline_id cp)]\<rparr>)"
  by (simp add: ClientPowerShell_start_def Let_def)

lemma exchange_key_cipher:
  "AsyncRunspacePool_exchange_key answered (rp, mem, nxt) = Some (rp', mem', nxt')
     \<Longrightarrow> crp_cipher (rp_pool rp')"
  by (auto simp: AsyncRunspacePool_exchange_key_def Let_def
        ClientRunspacePool_session_key_received_def
      split: if_splits prod.splits option.splits)

lemma try_send_never_raises:
  "AsyncPipeline_try_send answered cp x st \<noteq> Some (Inl e)"
proof (cases st)
  case (fields rp mem nxt)
  show ?thesis
  proof (cases "is_secure x \<and> \<not> crp_cipher (rp_pool rp)")
    case False
    then show ?thesis using fields by (auto simp: AsyncPipeline_try_send_def send_cases)
  next
    case True
    let ?st1 = "(rp\<lparr>rp_pool := (rp_pool rp)\<lparr>crp_calls := crp_calls (rp_pool rp)
                    @ [CallSend (cps_pipeline_id cp) x]\<rparr>\<rparr>, mem, nxt)"
    show ?thesis
    proof (cases "AsyncRunspacePool_exchange_key answered ?st1")
      case None
      then show ?thesis
        using fields True MissingCipherError_is
        by (simp add: AsyncPipeline_try_send_def send_cases)
    next
      case (Some r)
      obtain rp2 mem2 nxt2 where r: "r = (rp2, mem2, nxt2)" by (cases r)
      have c: "crp_cipher (rp_pool rp2)"
        using exchange_key_cipher Some r by blast
      show ?thesis
        using fields True MissingCipherError_is Some r c
        by (simp add: AsyncPipeline_try_send_def send_cases)
    qed
  qed
qed


lemma try_start_answered:
  "\<exists>rp' mem' nxt'.
     AsyncPipeline_try_start True cp (rp, mem, nxt)
       = Some (Inr (cp\<lparr>cps_state := Running\<rparr>, rp', mem', nxt'))
     \<and> crp_calls (rp_pool rp')
         = crp_calls (rp_pool rp)
           @ (if list_ex is_secure (cps_values cp) \<and> \<not> crp_cipher (rp_pool rp)
              then [CallStart (cps_pipeline_id cp), CallExchangeKey, CallStart (cps_pipeline_id cp)]
              else [CallStart (cps_pipeline_id cp)])
     \<and> crp_cipher (rp_pool rp')
         = (crp_cipher (rp_pool rp) \<or> list_ex is_secure (cps_values cp))"
proof (cases "list_ex is_secure (cps_values cp) \<and> \<not> crp_cipher (rp_pool rp)")
  case False
  then show ?thesis
    by (auto simp: AsyncPipeline_try_start_def start_cases)
next
  case True
  let ?pool1 = "(rp_pool rp)\<lparr>crp_calls := crp_calls (rp_pool rp) @ [CallStart (cps_pipeline_id cp)]\<rparr>"
  obtain rp2 mem2 nxt2 where
    x: "AsyncRunspacePool_exchange_key True (rp\<lparr>rp_pool := ?pool1\<rparr>, mem, nxt) = Some (rp2, mem2, nxt2)"
    and p: "rp_pool rp2 = ?pool1\<lparr>crp_calls := crp_calls ?pool1 @ [CallExchangeKey], crp_cipher := True\<rparr>"
    using exchange_key_answered[of "rp\<lparr>rp_pool := ?pool1\<rparr>" mem nxt] by auto
  show ?thesis
    using True MissingCipherError_is x p
    by (simp add: AsyncPipeline_try_start_def start_cases)
qed

lemma try_start_never_raises:
  "AsyncPipeline_try_start answered cp st \<noteq> Some (Inl e)"
proof (cases st)
  case (fields rp mem nxt)
  show ?thesis
  proof (cases "list_ex is_secure (cps_values cp) \<and> \<not> crp_cipher (rp_pool rp)")
    case False
    then show ?thesis using fields by (auto simp: AsyncPipeline_try_start_def start_cases)
  next
    case True
    let ?st1 = "(rp\<lparr>rp_pool := (rp_pool rp)\<lparr>crp_calls := crp_calls (rp_pool rp)
                    @ [CallStart (cps_pipeline_id cp)]\<rparr>\<rparr>, mem, nxt)"
    show ?thesis
    proof (cases "AsyncRunspacePool_exchange_key answered ?st1")
      case None
      then show ?thesis
        using fields True MissingCipherError_is
        by (simp add: AsyncPipeline_try_start_def start_cases)
    next
      case (Some r)
      obtain rp2 mem2 nxt2 where r: "r = (rp2, mem2, nxt2)" by (cases r)
      have c: "crp_cipher (rp_pool rp2)"
        using exchange_key_cipher Some r by blast
      show ?thesis
        using fields True MissingCipherError_is Some r c
        by (simp add: AsyncPipeline_try_start_def start_cases)
    qed
  qed
qed

lemma send_input_answered:
  "\<exists>rp' mem' nxt'.
     AsyncPipeline_send_input True buffer_input cp xs (rp, mem, nxt) = Some (Inr (rp', mem', nxt'))
     \<and> crp_calls (rp_pool rp')
         = crp_calls (rp_pool rp)
           @ retry_once_sends (cps_pipeline_id cp) (crp_cipher (rp_pool rp)) xs"
proof (induction xs arbitrary: rp mem nxt)
  case Nil
  show ?case by simp
next
  case (Cons x xs)
  obtain rp1 mem1 nxt1 where
    t: "AsyncPipeline_try_send True cp x (rp, mem, nxt) = Some (Inr (rp1, mem1, nxt1))"
    and c: "crp_calls (rp_pool rp1)
         = crp_calls (rp_pool rp)
           @ (if is_secure x \<and> \<not> crp_cipher (rp_pool rp)
              then [CallSend (cps_pipeline_id cp) x, CallExchangeKey, CallSend (cps_pipeline_id cp) x]
              else [CallSend (cps_pipeline_id cp) x])"
    and k: "crp_cipher (rp_pool rp1) = (crp_cipher (rp_pool rp) \<or> is_secure x)"
    using try_send_answered[of cp x rp mem nxt] by blast
  let ?rp1 = "rp1\<lparr>rp_connection := rp_connection rp1
                    @ [if buffer_input then ConnSendBuffer else ConnSendAll]\<rparr>"
  obtain rp' mem' nxt' where
    r: "AsyncPipeline_send_input True buffer_input cp xs (?rp1, mem1, nxt1) = Some (Inr (rp', mem', nxt'))"
    and rc: "crp_calls (rp_pool rp')
         = crp_calls (rp_pool ?rp1)
           @ retry_once_sends (cps_pipeline_id cp) (crp_cipher (rp_pool ?rp1)) xs"
    using Cons.IH[of ?rp1 mem1 nxt1] by blast
  have "AsyncPipeline_send_input True buffer_input cp (x # xs) (rp, mem, nxt)
          = Some (Inr (rp', mem', nxt'))"
    using t r by simp
  moreover have "crp_calls (rp_pool rp')
         = crp_calls (rp_pool rp)
           @ retry_once_sends (cps_pipeline_id cp) (crp_cipher (rp_pool rp)) (x # xs)"
    using rc c k by auto
  ultimately show ?case by blast
qed

lemma send_input_never_raises:
  "AsyncPipeline_send_input answered buffer_input cp xs st \<noteq> Some (Inl e)"
proof (induction xs arbitrary: st)
  case Nil
  show ?case by simp
next
  case (Cons x xs)
  show ?case
  proof (cases "AsyncPipeline_try_send answered cp x st")
    case None
    then show ?thesis by simp
  next
    case (Some r)
    show ?thesis
    proof (cases r)
      case (Inl e')
      then show ?thesis using Some try_send_never_raises[of answered cp x st e'] by simp
    next
      case (Inr st1)
      obtain rp1 mem1 nxt1 where st1: "st1 = (rp1, mem1, nxt1)" by (cases st1)
      show ?thesis using Some Inr st1 Cons.IH by simp
    qed
  qed
qed


lemma arm_pipeline:
  "AsyncPipeline_pipelines_task_arm a (AsyncPipeline_set_output out q, mem) = (p, mem0)
     \<Longrightarrow> pl_pipeline p = pl_pipeline q"
  by (auto simp: AsyncPipeline_pipelines_task_arm_def AsyncPipeline_set_output_def
      split: option.splits)

lemma async_invoke_calls:
  "\<exists>task rp' pls' mem' nxt'.
     AsyncPipeline_invoke_async True input_data out buffer_input self (rp, pls, mem, nxt)
       = Some (Inr (task, rp', pls', mem', nxt'))
     \<and> crp_calls (rp_pool rp')
         = crp_calls (rp_pool rp)
           @ retry_once_calls (cps_pipeline_id (pl_pipeline (pls self)))
               (crp_cipher (rp_pool rp)) (cps_values (pl_pipeline (pls self))) input_data"
proof -
  obtain p mem0 where
    arm: "AsyncPipeline_pipelines_task_arm nxt (AsyncPipeline_set_output out (pls self), mem) = (p, mem0)"
    by (cases "AsyncPipeline_pipelines_task_arm nxt (AsyncPipeline_set_output out (pls self), mem)")
  have pp: "pl_pipeline p = pl_pipeline (pls self)" using arm by (rule arm_pipeline)
  let ?cp = "pl_pipeline (pls self)"
  let ?pid = "cps_pipeline_id ?cp"
  let ?cp' = "?cp\<lparr>cps_state := Running\<rparr>"
  obtain rp1 mem1 nxt1 where
    t: "AsyncPipeline_try_start True ?cp (rp, mem0, Suc nxt) = Some (Inr (?cp', rp1, mem1, nxt1))"
    and c: "crp_calls (rp_pool rp1)
         = crp_calls (rp_pool rp)
           @ (if list_ex is_secure (cps_values ?cp) \<and> \<not> crp_cipher (rp_pool rp)
              then [CallStart ?pid, CallExchangeKey, CallStart ?pid]
              else [CallStart ?pid])"
    and k: "crp_cipher (rp_pool rp1) = (crp_cipher (rp_pool rp) \<or> list_ex is_secure (cps_values ?cp))"
    using try_start_answered[of ?cp rp mem0 "Suc nxt"] by blast
  let ?rp2 = "rp1\<lparr>rp_pipeline_table := (rp_pipeline_table rp1)(?pid \<mapsto> self),
                    rp_connection := rp_connection rp1 @ [ConnCommand ?pid, ConnSendAll]\<rparr>"
  show ?thesis
  proof (cases input_data)
    case None
    have "AsyncPipeline_invoke_async True input_data out buffer_input self (rp, pls, mem, nxt)
            = Some (Inr (nxt, ?rp2, pls(self := p\<lparr>pl_pipeline := ?cp'\<rparr>), mem1, nxt1))"
      using arm pp t None by (simp add: AsyncPipeline_invoke_async_def Let_def)
    moreover have "crp_calls (rp_pool ?rp2)
         = crp_calls (rp_pool rp) @ retry_once_calls ?pid (crp_cipher (rp_pool rp)) (cps_values ?cp) input_data"
      using c None by (simp add: retry_once_calls_def)
    ultimately show ?thesis by blast
  next
    case (Some xs)
    obtain rp3 mem3 nxt3 where
      si: "AsyncPipeline_send_input True buffer_input ?cp' xs (?rp2, mem1, nxt1) = Some (Inr (rp3, mem3, nxt3))"
      and sc: "crp_calls (rp_pool rp3)
         = crp_calls (rp_pool ?rp2) @ retry_once_sends (cps_pipeline_id ?cp') (crp_cipher (rp_pool ?rp2)) xs"
      using send_input_answered[of buffer_input ?cp' xs ?rp2 mem1 nxt1] by blast
    let ?rp4 = "rp3\<lparr>rp_pool := ClientPowerShell_send_eof ?cp' (rp_pool rp3),
                    rp_connection := rp_connection rp3 @ [ConnSendAll]\<rparr>"
    have "AsyncPipeline_invoke_async True input_data out buffer_input self (rp, pls, mem, nxt)
            = Some (Inr (nxt, ?rp4, pls(self := p\<lparr>pl_pipeline := ?cp'\<rparr>), mem3, nxt3))"
      using arm pp t Some si by (simp add: AsyncPipeline_invoke_async_def Let_def)
    moreover have "crp_calls (rp_pool ?rp4)
         = crp_calls (rp_pool rp) @ retry_once_calls ?pid (crp_cipher (rp_pool rp)) (cps_values ?cp) input_data"
      using c k sc Some by (simp add: retry_once_calls_def ClientPowerShell_send_eof_def)
    ultimately show ?thesis by blast
  qed
qed

lemma async_invoke_never_raises:
  "AsyncPipeline_invoke_async answered input_data out buffer_input self st \<noteq> Some (Inl e)"
proof (cases st)
  case (fields rp pls mem nxt)
  obtain p mem0 where
    arm: "AsyncPipeline_pipelines_task_arm nxt (AsyncPipeline_set_output out (pls self), mem) = (p, mem0)"
    by (cases "AsyncPipeline_pipelines_task_arm nxt (AsyncPipeline_set_output out (pls self), mem)")
  show ?thesis
  proof (cases "AsyncPipeline_try_start answered (pl_pipeline p) (rp, mem0, Suc nxt)")
    case None
    then show ?thesis using fields arm by (simp add: AsyncPipeline_invoke_async_def Let_def)
  next
    case (Some r)
    show ?thesis
    proof (cases r)
      case (Inl e')
      then show ?thesis
        using Some try_start_never_raises[of answered "pl_pipeline p" "(rp, mem0, Suc nxt)" e'] by simp
    next
      case (Inr v)
      obtain cp rp1 mem1 nxt1 where v: "v = (cp, rp1, mem1, nxt1)" by (cases v)
      show ?thesis
      proof (cases input_data)
        case None
        then show ?thesis
          using fields arm Some Inr v by (simp add: AsyncPipeline_invoke_async_def Let_def)
      next
        case (Some xs)
        let ?rp2 = "rp1\<lparr>rp_pipeline_table := (rp_pipeline_table rp1)(cps_pipeline_id (pl_pipeline p) \<mapsto> self),
                    rp_connection := rp_connection rp1 @ [ConnCommand (cps_pipeline_id (pl_pipeline p)), ConnSendAll]\<rparr>"
        have n: "AsyncPipeline_send_input answered buffer_input cp xs (?rp2, mem1, nxt1) \<noteq> Some (Inl e)"
          by (rule send_input_never_raises)
        show ?thesis
          using fields arm \<open>AsyncPipeline_try_start answered (pl_pipeline p) (rp, mem0, Suc nxt) = Some r\<close>
            Inr v Some
          by (simp add: AsyncPipeline_invoke_async_def Let_def send_input_never_raises
              split: option.splits sum.splits)
      qed
    qed
  qed
qed


lemma sync_exchange_key_answered:
  "RunspacePool_exchange_key True rp
     = Some (rp\<lparr>sy_pool := (sy_pool rp)\<lparr>crp_calls := crp_calls (sy_pool rp) @ [CallExchangeKey],
                                          crp_cipher := True\<rparr>,
                sy_connection := sy_connection rp @ [ConnSendAll]\<rparr>)"
  by (simp add: RunspacePool_exchange_key_def Let_def ClientRunspacePool_exchange_key_def
      ClientRunspacePool_session_key_received_def)

lemma sync_exchange_key_cipher:
  "RunspacePool_exchange_key answered rp = Some rp' \<Longrightarrow> crp_cipher (sy_pool rp')"
  by (auto simp: RunspacePool_exchange_key_def Let_def
        ClientRunspacePool_session_key_received_def split: if_splits)

lemma sync_try_send_answered:
  "\<exists>rp'. Pipeline_try_send True cp x rp = Some (Inr rp')
     \<and> crp_calls (sy_pool rp')
         = crp_calls (sy_pool rp)
           @ (if is_secure x \<and> \<not> crp_cipher (sy_pool rp)
              then [CallSend (cps_pipeline_id cp) x, CallExchangeKey, CallSend (cps_pipeline_id cp) x]
              else [CallSend (cps_pipeline_id cp) x])
     \<and> crp_cipher (sy_pool rp') = (crp_cipher (sy_pool rp) \<or> is_secure x)"
  using MissingCipherError_is
  by (auto simp: Pipeline_try_send_def send_cases sync_exchange_key_answered)

lemma sync_try_start_answered:
  "\<exists>rp'. Pipeline_try_start True cp rp = Some (Inr (cp\<lparr>cps_state := Running\<rparr>, rp'))
     \<and> crp_calls (sy_pool rp')
         = crp_calls (sy_pool rp)
           @ (if list_ex is_secure (cps_values cp) \<and> \<not> crp_cipher (sy_pool rp)
              then [CallStart (cps_pipeline_id cp), CallExchangeKey, CallStart (cps_pipeline_id cp)]
              else [CallStart (cps_pipeline_id cp)])
     \<and> crp_cipher (sy_pool rp')
         = (crp_cipher (sy_pool rp) \<or> list_ex is_secure (cps_values cp))"
  using MissingCipherError_is
  by (auto simp: Pipeline_try_start_def start_cases sync_exchange_key_answered)

lemma sync_try_send_never_raises:
  "Pipeline_try_send answered cp x rp \<noteq> Some (Inl e)"
proof (cases "is_secure x \<and> \<not> crp_cipher (sy_pool rp)")
  case False
  then show ?thesis by (auto simp: Pipeline_try_send_def send_cases)
next
  case True
  let ?rp1 = "rp\<lparr>sy_pool := (sy_pool rp)\<lparr>crp_calls := crp_calls (sy_pool rp)
                    @ [CallSend (cps_pipeline_id cp) x]\<rparr>\<rparr>"
  show ?thesis
  proof (cases "RunspacePool_exchange_key answered ?rp1")
    case None
    then show ?thesis
      using True MissingCipherError_is by (simp add: Pipeline_try_send_def send_cases)
  next
    case (Some rp2)
    have c: "crp_cipher (sy_pool rp2)" using sync_exchange_key_cipher Some by blast
    show ?thesis
      using True MissingCipherError_is Some c by (simp add: Pipeline_try_send_def send_cases)
  qed
qed

lemma sync_try_start_never_raises:
  "Pipeline_try_start answered cp rp \<noteq> Some (Inl e)"
proof (cases "list_ex is_secure (cps_values cp) \<and> \<not> crp_cipher (sy_pool rp)")
  case False
  then show ?thesis by (auto simp: Pipeline_try_start_def start_cases)
next
  case True
  let ?rp1 = "rp\<lparr>sy_pool := (sy_pool rp)\<lparr>crp_calls := crp_calls (sy_pool rp)
                    @ [CallStart (cps_pipeline_id cp)]\<rparr>\<rparr>"
  show ?thesis
  proof (cases "RunspacePool_exchange_key answered ?rp1")
    case None
    then show ?thesis
      using True MissingCipherError_is by (simp add: Pipeline_try_start_def start_cases)
  next
    case (Some rp2)
    have c: "crp_cipher (sy_pool rp2)" using sync_exchange_key_cipher Some by blast
    show ?thesis
      using True MissingCipherError_is Some c by (simp add: Pipeline_try_start_def start_cases)
  qed
qed

lemma sync_send_input_answered:
  "\<exists>rp'. Pipeline_send_input True buffer_input cp xs rp = Some (Inr rp')
     \<and> crp_calls (sy_pool rp')
         = crp_calls (sy_pool rp)
           @ retry_once_sends (cps_pipeline_id cp) (crp_cipher (sy_pool rp)) xs"
proof (induction xs arbitrary: rp)
  case Nil
  show ?case by simp
next
  case (Cons x xs)
  obtain rp1 where
    t: "Pipeline_try_send True cp x rp = Some (Inr rp1)"
    and c: "crp_calls (sy_pool rp1)
         = crp_calls (sy_pool rp)
           @ (if is_secure x \<and> \<not> crp_cipher (sy_pool rp)
              then [CallSend (cps_pipeline_id cp) x, CallExchangeKey, CallSend (cps_pipeline_id cp) x]
              else [CallSend (cps_pipeline_id cp) x])"
    and k: "crp_cipher (sy_pool rp1) = (crp_cipher (sy_pool rp) \<or> is_secure x)"
    using sync_try_send_answered[of cp x rp] by blast
  let ?rp1 = "rp1\<lparr>sy_connection := sy_connection rp1
                    @ [if buffer_input then ConnSendBuffer else ConnSendAll]\<rparr>"
  obtain rp' where
    r: "Pipeline_send_input True buffer_input cp xs ?rp1 = Some (Inr rp')"
    and rc: "crp_calls (sy_pool rp')
         = crp_calls (sy_pool ?rp1)
           @ retry_once_sends (cps_pipeline_id cp) (crp_cipher (sy_pool ?rp1)) xs"
    using Cons.IH[of ?rp1] by blast
  have "Pipeline_send_input True buffer_input cp (x # xs) rp = Some (Inr rp')"
    using t r by simp
  moreover have "crp_calls (sy_pool rp')
         = crp_calls (sy_pool rp)
           @ retry_once_sends (cps_pipeline_id cp) (crp_cipher (sy_pool rp)) (x # xs)"
    using rc c k by auto
  ultimately show ?case by blast
qed

lemma sync_send_input_never_raises:
  "Pipeline_send_input answered buffer_input cp xs rp \<noteq> Some (Inl e)"
proof (induction xs arbitrary: rp)
  case Nil
  show ?case by simp
next
  case (Cons x xs)
  show ?case
  proof (cases "Pipeline_try_send answered cp x rp")
    case None
    then show ?thesis by simp
  next
    case (Some r)
    show ?thesis
    proof (cases r)
      case (Inl e')
      then show ?thesis using Some sync_try_send_never_raises[of answered cp x rp e'] by simp
    next
      case (Inr rp1)
      show ?thesis using Some Inr Cons.IH by simp
    qed
  qed
qed

lemma new_task_pipeline:
  "Pipeline_new_task out ev for_stop (sp0, mem0) = (task, sp, mem)
     \<Longrightarrow> sy_pipeline sp = sy_pipeline sp0"
  by (auto simp: Pipeline_new_task_def split: option.splits if_splits prod.splits)

lemma sync_invoke_calls:
  "\<exists>task sp' rp' mem'.
     Pipeline_invoke_async True input_data out ev buffer_input self (sp0, rp, mem0)
       = Some (Inr (task, sp', rp', mem'))
     \<and> crp_calls (sy_pool rp')
         = crp_calls (sy_pool rp)
           @ retry_once_calls (cps_pipeline_id (sy_pipeline sp0))
               (crp_cipher (sy_pool rp)) (cps_values (sy_pipeline sp0)) input_data"
proof -
  obtain task sp mem where
    nt: "Pipeline_new_task out ev False (sp0, mem0) = (task, sp, mem)"
    by (cases "Pipeline_new_task out ev False (sp0, mem0)")
  have pp: "sy_pipeline sp = sy_pipeline sp0" using nt by (rule new_task_pipeline)
  let ?cp = "sy_pipeline sp0"
  let ?pid = "cps_pipeline_id ?cp"
  let ?cp' = "?cp\<lparr>cps_state := Running\<rparr>"
  obtain rp1 where
    t: "Pipeline_try_start True ?cp rp = Some (Inr (?cp', rp1))"
    and c: "crp_calls (sy_pool rp1)
         = crp_calls (sy_pool rp)
           @ (if list_ex is_secure (cps_values ?cp) \<and> \<not> crp_cipher (sy_pool rp)
              then [CallStart ?pid, CallExchangeKey, CallStart ?pid]
              else [CallStart ?pid])"
    and k: "crp_cipher (sy_pool rp1) = (crp_cipher (sy_pool rp) \<or> list_ex is_secure (cps_values ?cp))"
    using sync_try_start_answered[of ?cp rp] by blast
  let ?rp2 = "rp1\<lparr>sy_pipeline_table := (sy_pipeline_table rp1)(?pid \<mapsto> self),
                    sy_connection := sy_connection rp1 @ [ConnCommand ?pid, ConnSendAll]\<rparr>"
  show ?thesis
  proof (cases input_data)
    case None
    have "Pipeline_invoke_async True input_data out ev buffer_input self (sp0, rp, mem0)
            = Some (Inr (task, sp\<lparr>sy_pipeline := ?cp'\<rparr>, ?rp2, mem))"
      using nt pp t None by (simp add: Pipeline_invoke_async_def Let_def)
    moreover have "crp_calls (sy_pool ?rp2)
         = crp_calls (sy_pool rp) @ retry_once_calls ?pid (crp_cipher (sy_pool rp)) (cps_values ?cp) input_data"
      using c None by (simp add: retry_once_calls_def)
    ultimately show ?thesis by blast
  next
    case (Some xs)
    obtain rp3 where
      si: "Pipeline_send_input True buffer_input ?cp' xs ?rp2 = Some (Inr rp3)"
      and sc: "crp_calls (sy_pool rp3)
         = crp_calls (sy_pool ?rp2) @ retry_once_sends (cps_pipeline_id ?cp') (crp_cipher (sy_pool ?rp2)) xs"
      using sync_send_input_answered[of buffer_input ?cp' xs ?rp2] by blast
    let ?rp4 = "rp3\<lparr>sy_pool := ClientPowerShell_send_eof ?cp' (sy_pool rp3),
                    sy_connection := sy_connection rp3 @ [ConnSendAll]\<rparr>"
    have "Pipeline_invoke_async True input_data out ev buffer_input self (sp0, rp, mem0)
            = Some (Inr (task, sp\<lparr>sy_pipeline := ?cp'\<rparr>, ?rp4, mem))"
      using nt pp t Some si by (simp add: Pipeline_invoke_async_def Let_def)
    moreover have "crp_calls (sy_pool ?rp4)
         = crp_calls (sy_pool rp) @ retry_once_calls ?pid (crp_cipher (sy_pool rp)) (cps_values ?cp) input_data"
      using c k sc Some by (simp add: retry_once_calls_def ClientPowerShell_send_eof_def)
    ultimately show ?thesis by blast
  qed
qed

lemma sync_invoke_never_raises:
  "Pipeline_invoke_async answered input_data out ev buffer_input self st \<noteq> Some (Inl e)"
proof (cases st)
  case (fields sp0 rp mem0)
  obtain task sp mem where
    nt: "Pipeline_new_task out ev False (sp0, mem0) = (task, sp, mem)"
    by (cases "Pipeline_new_task out ev False (sp0, mem0)")
  show ?thesis
    using fields nt
    by (simp add: Pipeline_invoke_async_def Let_def sync_try_start_never_raises
        sync_send_input_never_raises split: option.splits sum.splits)
qed

text \<open>
  C7. Every invoke of a pipeline, in both facades, whose key exchange is answered returns a
  task, and the calls it makes on the codec are the calls of the single retry: the start, and
  when the start raises MissingCipherError (the pipeline carries a secure string and the pool has
  no cipher) one \<open>exchange_key\<close> and one more start; then for each input item the send, and when
  the send raises MissingCipherError one \<open>exchange_key\<close> and one more send of the same item; then
  the end of input. Whether the key exchange is answered or not, invoke never raises: the
  MissingCipherError does not reach the caller.
\<close>

theorem C7_missing_cipher_single_retry:
  "(\<exists>task rp' pls' mem' nxt'.
      AsyncPipeline_invoke_async True input_data out buffer_input self (rp, pls, mem, nxt)
        = Some (Inr (task, rp', pls', mem', nxt'))
      \<and> crp_calls (rp_pool rp')
          = crp_calls (rp_pool rp)
            @ retry_once_calls (cps_pipeline_id (pl_pipeline (pls self)))
                (crp_cipher (rp_pool rp)) (cps_values (pl_pipeline (pls self))) input_data)
   \<and> (\<forall>answered e.
        AsyncPipeline_invoke_async answered input_data out buffer_input self (rp, pls, mem, nxt)
          \<noteq> Some (Inl e))
   \<and> (\<exists>task sp' srp' smem'.
        Pipeline_invoke_async True input_data sout ev buffer_input sself (sp, srp, smem)
          = Some (Inr (task, sp', srp', smem'))
        \<and> crp_calls (sy_pool srp')
            = crp_calls (sy_pool srp)
              @ retry_once_calls (cps_pipeline_id (sy_pipeline sp))
                  (crp_cipher (sy_pool srp)) (cps_values (sy_pipeline sp)) input_data)
   \<and> (\<forall>answered e.
        Pipeline_invoke_async answered input_data sout ev buffer_input sself (sp, srp, smem)
          \<noteq> Some (Inl e))"
  using async_invoke_calls[of input_data out buffer_input self rp pls mem nxt]
    async_invoke_never_raises[of _ input_data out buffer_input self "(rp, pls, mem, nxt)"]
    sync_invoke_calls[of input_data sout ev buffer_input sself sp srp smem]
    sync_invoke_never_raises[of _ input_data sout ev buffer_input sself "(sp, srp, smem)"]
  by blast

section \<open>Errors of a pipeline\<close>

lemma async_had_errors:
  "AsyncPipeline_had_errors p = (items (pl_stream_error p) \<noteq> [])"
  by (simp add: AsyncPipeline_had_errors_def)

text \<open>
  C1, on the sync facade: \<open>had_errors\<close> is read from the state of the pipeline and not from
  its error stream. A pipeline whose state is Failed and whose error stream is empty has
  \<open>had_errors\<close>, and a pipeline with a record on its error stream whose state is not Failed
  has not.
\<close>

theorem C1_sync_had_errors_from_state:
  "Pipeline_had_errors (state_received Failed new_sync_pipeline)
   \<and> ds_items (sy_streams (state_received Failed new_sync_pipeline) ''error'') = []
   \<and> \<not> Pipeline_had_errors
          (new_sync_pipeline\<lparr>sy_streams := (sy_streams new_sync_pipeline)
             (''error'' := \<lparr>ds_items = [PSStr ''boom''], added_idx = [Some 0], complete = False\<rparr>)\<rparr>)"
  by (simp add: Pipeline_had_errors_def Pipeline_state_def state_received_def
      new_sync_pipeline_def PSDataStream_new_def)

section \<open>Awaiting an invoke\<close>

lemma async_task_translates:
  "MessageResult_wait (mem task) = Some (Some (PSRPEvent pid (PipelineStateEvent st reason)))
     \<Longrightarrow> fst (AsyncPipeline_pipelines_task on_complete self task (rp, pls, mem, w))
           = Some (if st = Failed
                   then Inl (PipelineFailed (case reason of Some r \<Rightarrow> r | None \<Rightarrow> ''Unknown failure.''))
                   else if st = Stopped
                   then Inl (PipelineStopped
                              (case reason of Some r \<Rightarrow> r | None \<Rightarrow> ''The pipeline has been stopped.''))
                   else Inr (if pl_explicit_output (pls self) then []
                             else items (pl_stream_output (pls self))))"
  by (simp add: AsyncPipeline_pipelines_task_def Let_def)

lemma async_explicit_output_stays:
  "pl_explicit_output (AsyncPipeline_set_output None (AsyncPipeline_set_output (Some s) p))"
  by (simp add: AsyncPipeline_set_output_def)

text \<open>
  C5, on the sync facade: a pipeline is invoked with no output stream, the peer reports the
  state Failed, and \<open>_on_state\<close> sets the event of the task. \<open>wait\<close> on the task then returns
  the output stream of the task; \<open>PipelineFailed\<close> is not raised.
\<close>

theorem C5_sync_failed_pipeline_returns:
  "(case Pipeline_invoke_async True None None None True 0
           (new_sync_pipeline, new_sync_pool, example_memory) of
      Some (Inr (task, sp, rp, mem)) \<Rightarrow>
        (case Pipeline_on_state 0 (rp, (\<lambda>_. state_received Failed sp), mem) of
           (err, rp', pls', mem') \<Rightarrow>
             err = None \<and> Pipeline_state (pls' 0) = Failed
             \<and> PipelineTask_wait task mem' = Some (Some 2))
    | _ \<Rightarrow> False)"
  by (simp add: Pipeline_invoke_async_def Pipeline_new_task_def Pipeline_try_start_def
      ClientPowerShell_start_def Pipeline_on_state_def Pipeline_close_def PipelineTask_wait_def
      Pipeline_state_def state_received_def new_sync_pipeline_def new_sync_pool_def
      example_memory_def example_pool_def ClientRunspacePool_new_def PSDataStream_new_def
      PSDataStream_finalize_def Let_def)

section \<open>Construction of a pool\<close>

lemma async_init_checks:
  "(AsyncRunspacePool_init min_rs max_rs host rpid = Inl ConfigInvalid)
     = (min_rs < 1 \<or> max_rs < min_rs)"
  by (simp add: AsyncRunspacePool_init_def)

lemma async_init_invariant:
  "AsyncRunspacePool_init min_rs max_rs host rpid = Inr rp
     \<Longrightarrow> 1 \<le> AsyncRunspacePool_min_runspaces rp
         \<and> AsyncRunspacePool_min_runspaces rp \<le> AsyncRunspacePool_max_runspaces rp"
  by (auto simp: AsyncRunspacePool_init_def AsyncRunspacePool_min_runspaces_def
      AsyncRunspacePool_max_runspaces_def ClientRunspacePool_new_def split: if_splits)

text \<open>
  C6, on the sync facade: the construction of a pool with \<open>min_runspaces = 0\<close>, and of one with
  \<open>max_runspaces < min_runspaces\<close>, succeeds, and the pool then reports these values.
\<close>

theorem C6_sync_init_unchecked:
  "(case RunspacePool_init 0 1 None 7 of
      Inl e \<Rightarrow> False
    | Inr rp \<Rightarrow> RunspacePool_min_runspaces rp = 0 \<and> RunspacePool_max_runspaces rp = 1)
   \<and> (case RunspacePool_init 5 2 None 7 of
        Inl e \<Rightarrow> False
      | Inr rp \<Rightarrow> RunspacePool_min_runspaces rp = 5 \<and> RunspacePool_max_runspaces rp = 2)"
  by (simp add: RunspacePool_init_def RunspacePool_min_runspaces_def
      RunspacePool_max_runspaces_def ClientRunspacePool_new_def)

section \<open>Availability\<close>

lemma availability_ci_none:
  "AsyncRunspacePool_send_set_runspace_availability_ci None addr incoming (rp, mem)
     = (Some (Inr True), rp, mem)
   \<and> RunspacePool_validate_runspace_availability None incoming srp = (Some (Inr True), srp)"
  by (simp add: AsyncRunspacePool_send_set_runspace_availability_ci_def
      RunspacePool_validate_runspace_availability_def)

lemma async_availability_example:
  "(case AsyncRunspacePool_init 1 1 None 7 of
      Inl e \<Rightarrow> False
    | Inr (rp :: unit AsyncRunspacePool) \<Rightarrow>
        (case AsyncRunspacePool_send_set_runspace_availability_ci (Some 1) 0
                [PSRPEvent None (RunspacePoolHostCallEvent 1 ReadLine []),
                 PSRPEvent None (SetRunspaceAvailabilityEvent 1 False)]
                (rp, (\<lambda>_. MessageResult_new TSetRunspaceAvailability None)) of
           (r, rp', mem') \<Rightarrow> r = Some (Inr False) \<and> rp_connection rp' = [ConnSendAll]))"
  by (simp add: AsyncRunspacePool_init_def
      AsyncRunspacePool_send_set_runspace_availability_ci_def Let_def MessageResult_new_def
      MessageResult_set_def MessageResult_wait_def isinstance_event_def event_ci_def
      event_success_def)

text \<open>
  C9, on the sync facade: the pool has filed a host call of a pipeline under the call
  identifier 1, and an availability operation gets the call identifier 1 from the codec. The
  operation sends and takes the host call at once as its answer: reading \<open>success\<close> on it
  raises \<open>AttributeError\<close>, and the \<open>SetRunspaceAvailability\<close> event of the peer is not
  awaited.
\<close>

theorem C9_sync_takes_stale_host_call:
  "RunspacePool_validate_runspace_availability (Some 1)
       [PSRPEvent None (SetRunspaceAvailabilityEvent 1 True)]
       (new_sync_pool\<lparr>sy_ci_table :=
           RunspacePool_record_ci (PSRPEvent (Some 3) (PipelineHostCallEvent 1 ReadLine []))
             Map.empty\<rparr>)
     = (Some (Inl (AttributeError ''success'')),
        new_sync_pool\<lparr>sy_connection := [ConnSendAll], sy_ci_table := Map.empty\<rparr>)"
  by (simp add: RunspacePool_validate_runspace_availability_def RunspacePool_record_ci_def
      event_success_def new_sync_pool_def Let_def)

section \<open>Builders\<close>

lemma async_builders_return_self:
  "(case AsyncPowerShell_add_argument C v self pls of Inl e \<Rightarrow> True | Inr (r, _) \<Rightarrow> r = Some self)
   \<and> (case AsyncPowerShell_add_command C c u self pls of Inl e \<Rightarrow> True | Inr (r, _) \<Rightarrow> r = Some self)
   \<and> (case AsyncPowerShell_add_parameter C n v self pls of Inl e \<Rightarrow> True | Inr (r, _) \<Rightarrow> r = Some self)
   \<and> (case AsyncPowerShell_add_parameters C ps self pls of Inl e \<Rightarrow> True | Inr (r, _) \<Rightarrow> r = Some self)
   \<and> (case AsyncPowerShell_add_script C s u self pls of Inl e \<Rightarrow> True | Inr (r, _) \<Rightarrow> r = Some self)
   \<and> (case AsyncPowerShell_add_statement C self pls of Inl e \<Rightarrow> True | Inr (r, _) \<Rightarrow> r = Some self)"
  by (simp add: AsyncPowerShell_add_argument_def AsyncPowerShell_add_command_def
      AsyncPowerShell_add_parameter_def AsyncPowerShell_add_parameters_def
      AsyncPowerShell_add_script_def AsyncPowerShell_add_statement_def async_update_def
      split: sum.splits)

lemma sync_script_statement_return_self:
  "(case PowerShell_add_script C s u self pls of Inl e \<Rightarrow> True | Inr (r, _) \<Rightarrow> r = Some self)
   \<and> (case PowerShell_add_statement C self pls of Inl e \<Rightarrow> True | Inr (r, _) \<Rightarrow> r = Some self)"
  by (simp add: PowerShell_add_script_def PowerShell_add_statement_def sync_update_def
      split: sum.splits)

text \<open>
  C10, on the sync facade: \<open>add_command\<close> never returns the pipeline it was called on; where
  the codec accepts the command, it returns \<open>None\<close>, the command added.
\<close>

theorem C10_sync_add_command_returns_none:
  "(\<forall>C cmdlet use_local_scope self pls pls'.
      PowerShell_add_command C cmdlet use_local_scope self pls \<noteq> Inr (Some self, pls'))
   \<and> (\<exists>pls'. PowerShell_add_command example_methods ''Get-Item'' None 0 (\<lambda>_. new_sync_pipeline)
                = Inr (None, pls')
              \<and> cps_values (sy_pipeline (pls' 0)) = [PSStr ''Get-Item''])"
  by (simp add: PowerShell_add_command_def sync_update_def example_methods_def
      new_sync_pipeline_def split: sum.splits)

end
